theory Spec2Isabelle
  imports Complex_Main
begin

section \<open>EstateIQ backend: the tenant and payment ledger\<close>

text \<open>
  The handlers of \<^verbatim>\<open>src/index.js\<close> are embedded as functions from the
  database state and the request to a response and the new state. Each SQL statement is
  the list operation it denotes on the table it names; the tables follow the schema of
  the repository.

  Conventions of the embedding:
  \<^item> a JSON number is the rational that its text as a JavaScript number denotes, which
    is what is bound to a statement; a \<^verbatim>\<open>DECIMAL(15,2)\<close> column holds a rational,
    and an assignment to it rounds to two places and checks the range;
  \<^item> where JavaScript computes with a number (\<^verbatim>\<open>parseInt\<close>, \<^verbatim>\<open>parseFloat\<close>), the
    model computes exactly as far as doubles do, and what lies beyond is a parameter;
  \<^item> a calendar date is its day number; a timestamp is a natural number;
  \<^item> text fields of a request body are optional strings (\<open>None\<close> is an absent or
    null field); fields the handlers test for truthiness or bind to a numeric column
    are JavaScript values;
  \<^item> \<^verbatim>\<open>amount_paid\<close> and \<^verbatim>\<open>rent_per_annum\<close> are never NULL: every statement
    of the source that writes them binds a value;
  \<^item> the engine's conversion of a string parameter to a number is a parameter of the
    model (\<open>None\<close>: the statement is rejected);
  \<^item> \<^verbatim>\<open>uuid()\<close>, \<^verbatim>\<open>new Date()\<close> and the authenticated user are inputs, and so
    is the row the engine returns among payments created at the same instant; a
    handler is modelled from the point where the \<^verbatim>\<open>auth\<close> middleware has
    accepted the request;
  \<^item> a text is its UTF-8 bytes; \<^verbatim>\<open>toLowerCase\<close> is a parameter of the import;
  \<^item> a payment method is a value of the column's enumeration; the widths of text
    columns are not modelled; the tables hold the columns the handlers below read or
    write.
\<close>

subsection \<open>JavaScript values\<close>

datatype jsval = Undefined | Null | Boolean bool | Num rat | Str string

text \<open>\<^verbatim>\<open>!x\<close> is \<open>\<not> truthy x\<close>.\<close>

fun truthy :: "jsval \<Rightarrow> bool" where
  "truthy Undefined = False"
| "truthy Null = False"
| "truthy (Boolean b) = b"
| "truthy (Num r) = (r \<noteq> 0)"
| "truthy (Str s) = (s \<noteq> [])"

text \<open>\<^verbatim>\<open>x || 0\<close>\<close>

definition or_zero :: "jsval \<Rightarrow> jsval" where
  "or_zero x = (if truthy x then x else Num 0)"

text \<open>An optional string field: \<^verbatim>\<open>!s\<close>, \<^verbatim>\<open>s || ""\<close>.\<close>

fun truthy_text :: "string option \<Rightarrow> bool" where
  "truthy_text None = False"
| "truthy_text (Some s) = (s \<noteq> [])"

definition or_empty :: "string option \<Rightarrow> string" where
  "or_empty x = (if truthy_text x then the x else [])"

text \<open>
  A bound parameter in a numeric position. Booleans are sent as \<^verbatim>\<open>true\<close> and
  \<^verbatim>\<open>false\<close>, which the engine reads as 1 and 0; the reading of a string is the
  parameter \<open>sd\<close>. No call site binds \<^verbatim>\<open>null\<close> or \<^verbatim>\<open>undefined\<close> there.
\<close>

fun to_decimal :: "(string \<Rightarrow> rat option) \<Rightarrow> jsval \<Rightarrow> rat option" where
  "to_decimal sd (Num r) = Some r"
| "to_decimal sd (Boolean b) = Some (if b then 1 else 0)"
| "to_decimal sd (Str s) = sd s"
| "to_decimal sd Null = None"
| "to_decimal sd Undefined = None"

subsection \<open>DECIMAL(15,2)\<close>

text \<open>
  A number assigned to a \<^verbatim>\<open>DECIMAL(15,2)\<close> column is rounded to two places, a half
  away from zero. The column holds thirteen digits before the point: a rounded value of
  \<open>10 ^ 13\<close> or more in magnitude is out of range, and the statement is rejected (the
  strict mode that is the engine's default).
\<close>

definition round_half_away :: "rat \<Rightarrow> int" where
  "round_half_away x = (if 0 \<le> x then \<lfloor>x + 1 / 2\<rfloor> else - \<lfloor>- x + 1 / 2\<rfloor>)"

definition decimal_15_2 :: "rat \<Rightarrow> rat option" where
  "decimal_15_2 v =
     (let r = of_int (round_half_away (v * 100)) / 100
      in if \<bar>r\<bar> < 10 ^ 13 then Some r else None)"

text \<open>A bound parameter assigned to such a column.\<close>

definition bind_decimal :: "(string \<Rightarrow> rat option) \<Rightarrow> jsval \<Rightarrow> rat option" where
  "bind_decimal sd v = (case to_decimal sd v of None \<Rightarrow> None | Some r \<Rightarrow> decimal_15_2 r)"

subsection \<open>Tables\<close>

type_synonym date = int

datatype pay_method = Cash | BankTransfer | Cheque | Pos | Online

record tenant =
  t_id :: string
  sn :: nat
  tenant_name :: string
  accommodation_type :: "string option"
  property_address :: "string option"
  period :: "string option"
  lease_start :: "date option"
  lease_end :: "date option"
  rent_per_annum :: rat
  amount_paid :: rat
  phone :: "string option"
  email :: "string option"
  whatsapp :: "string option"
  t_notes :: "string option"
  quit_notice :: bool
  quit_notice_date :: "date option"
  created_by :: "string option"

record payment =
  p_id :: string
  tenant_id :: string
  amount :: rat
  payment_date :: date
  payment_method :: pay_method
  p_reference :: "string option"
  p_notes :: "string option"
  receipt_number :: "string option"
  recorded_by :: "string option"
  created_at :: nat

record user =
  u_id :: string
  u_name :: string
  u_email :: string
  password_hash :: string
  role :: string
  is_active :: bool
  last_login :: "nat option"

record db =
  tenants :: "tenant list"
  payments :: "payment list"
  users :: "user list"
  next_sn :: nat

text \<open>
  A response: a status with a JSON payload, a status with the handler's own
  \<^verbatim>\<open>{error: ...}\<close> message, or the \<^verbatim>\<open>catch\<close> branch (status 500 with the
  engine's message).
\<close>

datatype db_error = DupEntry | ForeignKey | NotNull | BadValue

datatype 'a response = Success nat 'a | Failure nat string | Internal db_error

fun status_of :: "'a response \<Rightarrow> nat" where
  "status_of (Success c x) = c"
| "status_of (Failure c m) = c"
| "status_of (Internal e) = 500"

text \<open>\<^verbatim>\<open>SELECT * FROM tenants WHERE id=?\<close>, destructured as \<^verbatim>\<open>[[row]]\<close>.\<close>

definition find_tenant :: "db \<Rightarrow> string \<Rightarrow> tenant option" where
  "find_tenant d i = find (\<lambda>t. t_id t = i) (tenants d)"

text \<open>\<^verbatim>\<open>UPDATE tenants SET ... WHERE id=?\<close>\<close>

definition update_tenants :: "string \<Rightarrow> (tenant \<Rightarrow> tenant) \<Rightarrow> db \<Rightarrow> db" where
  "update_tenants i f d = d\<lparr>tenants := map (\<lambda>t. if t_id t = i then f t else t) (tenants d)\<rparr>"

subsection \<open>PATCH /api/tenants/:id/payment\<close>

text \<open>An UPDATE that matches no row assigns nothing, and nothing is rejected: the
  handler answers 200 with an empty body.\<close>

definition patch_payment ::
  "(string \<Rightarrow> rat option) \<Rightarrow> db \<Rightarrow> string \<Rightarrow> jsval \<Rightarrow> tenant option response \<times> db" where
  "patch_payment sd d i b_amount_paid =
     (if find_tenant d i = None then (Success 200 None, d)
      else case bind_decimal sd (or_zero b_amount_paid) of
        None \<Rightarrow> (Internal BadValue, d)
      | Some v \<Rightarrow>
          (let d' = update_tenants i (\<lambda>t. t\<lparr>amount_paid := v\<rparr>) d
           in (Success 200 (find_tenant d' i), d')))"

subsection \<open>PATCH /api/tenants/:id/quit\<close>

definition patch_quit :: "date \<Rightarrow> db \<Rightarrow> string \<Rightarrow> jsval \<Rightarrow> tenant option response \<times> db" where
  "patch_quit today d i b_quit_notice =
     (let d' = update_tenants i
                 (\<lambda>t. t\<lparr>quit_notice := truthy b_quit_notice,
                        quit_notice_date := (if truthy b_quit_notice then Some today else None)\<rparr>) d
      in (Success 200 (find_tenant d' i), d'))"


subsection \<open>GET /api/tenants\<close>

text \<open>The three balance clauses of the \<^verbatim>\<open>WHERE\<close> part, as the SQL text has them.\<close>

definition is_paid :: "tenant \<Rightarrow> bool" where
  "is_paid t = (amount_paid t \<ge> rent_per_annum t \<and> rent_per_annum t > 0)"

definition is_partial :: "tenant \<Rightarrow> bool" where
  "is_partial t = (amount_paid t > 0 \<and> amount_paid t < rent_per_annum t)"

definition is_unpaid :: "tenant \<Rightarrow> bool" where
  "is_unpaid t = (amount_paid t = 0)"

text \<open>\<^verbatim>\<open>lease_end BETWEEN CURDATE() AND DATE_ADD(CURDATE(), INTERVAL 30 DAY)\<close>;
  a NULL date does not satisfy it.\<close>

definition is_expiring :: "date \<Rightarrow> tenant \<Rightarrow> bool" where
  "is_expiring curdate t =
     (case lease_end t of None \<Rightarrow> False | Some e \<Rightarrow> curdate \<le> e \<and> e \<le> curdate + 30)"

text \<open>\<^verbatim>\<open>col LIKE ?\<close> on a nullable column; the matching of a pattern is the
  engine's, the parameter \<open>like\<close> (pattern first).\<close>

definition like_col :: "(string \<Rightarrow> string \<Rightarrow> bool) \<Rightarrow> string \<Rightarrow> string option \<Rightarrow> bool" where
  "like_col like pat v = (case v of None \<Rightarrow> False | Some x \<Rightarrow> like pat x)"

definition search_clause :: "(string \<Rightarrow> string \<Rightarrow> bool) \<Rightarrow> string \<Rightarrow> tenant \<Rightarrow> bool" where
  "search_clause like s t =
     (let l = ''%'' @ s @ ''%''
      in like l (tenant_name t) \<or> like_col like l (accommodation_type t)
         \<or> like_col like l (property_address t) \<or> like_col like l (email t))"

definition status_clause :: "date \<Rightarrow> string option \<Rightarrow> tenant \<Rightarrow> bool" where
  "status_clause curdate status t =
     (if status = Some ''paid'' then is_paid t
      else if status = Some ''partial'' then is_partial t
      else if status = Some ''unpaid'' then is_unpaid t
      else if status = Some ''quit'' then quit_notice t
      else if status = Some ''expiring'' then is_expiring curdate t
      else True)"

definition list_tenants ::
  "(string \<Rightarrow> string \<Rightarrow> bool) \<Rightarrow> date \<Rightarrow> db \<Rightarrow> string option \<Rightarrow> string option \<Rightarrow> tenant list" where
  "list_tenants like curdate d search status =
     sort_key sn
       (filter (\<lambda>t. (truthy_text search \<longrightarrow> search_clause like (the search) t)
                     \<and> status_clause curdate status t)
               (tenants d))"

subsection \<open>GET /api/stats: the summary row\<close>

text \<open>\<^verbatim>\<open>SUM\<close> over no row is NULL; \<^verbatim>\<open>SUM\<close> of a condition counts the rows
  where it holds and skips those where it is NULL.\<close>

definition sql_sum :: "rat list \<Rightarrow> rat option" where
  "sql_sum xs = (if xs = [] then None else Some (sum_list xs))"

definition sql_count :: "('a \<Rightarrow> bool) \<Rightarrow> 'a list \<Rightarrow> nat option" where
  "sql_count P xs = (if xs = [] then None else Some (length (filter P xs)))"

record summary =
  total_tenants :: nat
  total_rent :: "rat option"
  total_paid :: "rat option"
  total_outstanding :: "rat option"
  quit_count :: "nat option"
  fully_paid :: "nat option"
  partial_paid :: "nat option"
  unpaid_count :: "nat option"
  expiring_soon :: "nat option"

definition stats_summary :: "date \<Rightarrow> db \<Rightarrow> summary" where
  "stats_summary curdate d =
     (let ts = tenants d in
      \<lparr> total_tenants = length ts,
        total_rent = sql_sum (map rent_per_annum ts),
        total_paid = sql_sum (map amount_paid ts),
        total_outstanding = sql_sum (map (\<lambda>t. max 0 (rent_per_annum t - amount_paid t)) ts),
        quit_count = sql_count quit_notice ts,
        fully_paid = sql_count is_paid ts,
        partial_paid = sql_count is_partial ts,
        unpaid_count = sql_count is_unpaid ts,
        expiring_soon = sql_count (is_expiring curdate) (filter (\<lambda>t. lease_end t \<noteq> None) ts) \<rparr>)"

subsection \<open>POST /api/tenants and PUT /api/tenants/:id\<close>

record tenant_body =
  b_tenant_name :: "string option"
  b_accommodation_type :: "string option"
  b_property_address :: "string option"
  b_period :: "string option"
  b_lease_start :: "date option"
  b_lease_end :: "date option"
  b_rent_per_annum :: jsval
  b_amount_paid :: jsval
  b_phone :: "string option"
  b_email :: "string option"
  b_whatsapp :: "string option"
  b_notes :: "string option"
  b_quit_notice :: jsval

text \<open>\<open>uid\<close> is \<^verbatim>\<open>req.user.id\<close>, \<open>new_id\<close> the result of \<^verbatim>\<open>uuid()\<close>. The
  primary key rejects an identifier already in the table; \<^verbatim>\<open>sn\<close> is the table's
  AUTO_INCREMENT counter.\<close>

definition create_tenant ::
  "(string \<Rightarrow> rat option) \<Rightarrow> string \<Rightarrow> string \<Rightarrow> db \<Rightarrow> tenant_body \<Rightarrow> tenant option response \<times> db" where
  "create_tenant sd uid new_id d b =
     (if \<not> truthy_text (b_tenant_name b) then (Failure 400 ''tenant_name required'', d)
      else case (bind_decimal sd (or_zero (b_rent_per_annum b)),
                 bind_decimal sd (or_zero (b_amount_paid b))) of
         (Some r, Some a) \<Rightarrow>
           if new_id \<in> t_id ` set (tenants d) then (Internal DupEntry, d)
           else
             (let row = \<lparr> t_id = new_id, sn = next_sn d,
                          tenant_name = the (b_tenant_name b),
                          accommodation_type = Some (or_empty (b_accommodation_type b)),
                          property_address = Some (or_empty (b_property_address b)),
                          period = Some (or_empty (b_period b)),
                          lease_start = b_lease_start b,
                          lease_end = b_lease_end b,
                          rent_per_annum = r,
                          amount_paid = a,
                          phone = Some (or_empty (b_phone b)),
                          email = Some (or_empty (b_email b)),
                          whatsapp = Some (or_empty (b_whatsapp b)),
                          t_notes = Some (or_empty (b_notes b)),
                          quit_notice = truthy (b_quit_notice b),
                          quit_notice_date = None,
                          created_by = Some uid \<rparr>;
                  d' = d\<lparr>tenants := tenants d @ [row], next_sn := Suc (next_sn d)\<rparr>
              in (Success 201 (find_tenant d' new_id), d'))
       | _ \<Rightarrow> (Internal BadValue, d))"

definition update_tenant ::
  "(string \<Rightarrow> rat option) \<Rightarrow> db \<Rightarrow> string \<Rightarrow> tenant_body \<Rightarrow> tenant option response \<times> db" where
  "update_tenant sd d i b =
     (if find_tenant d i = None then (Success 200 None, d)
      else case (bind_decimal sd (or_zero (b_rent_per_annum b)),
            bind_decimal sd (or_zero (b_amount_paid b))) of
        (Some r, Some a) \<Rightarrow>
          (case b_tenant_name b of
             None \<Rightarrow> (Internal NotNull, d)
           | Some n \<Rightarrow>
               (let d' = update_tenants i
                           (\<lambda>t. t\<lparr> tenant_name := n,
                                   accommodation_type := b_accommodation_type b,
                                   property_address := b_property_address b,
                                   period := b_period b,
                                   lease_start := b_lease_start b,
                                   lease_end := b_lease_end b,
                                   rent_per_annum := r,
                                   amount_paid := a,
                                   phone := b_phone b,
                                   email := b_email b,
                                   whatsapp := b_whatsapp b,
                                   t_notes := b_notes b,
                                   quit_notice := truthy (b_quit_notice b) \<rparr>) d
                in (Success 200 (find_tenant d' i), d')))
      | _ \<Rightarrow> (Internal BadValue, d))"

subsection \<open>Numbers and strings\<close>

definition is_digit :: "char \<Rightarrow> bool" where
  "is_digit c = (c \<in> set ''0123456789'')"

definition digit_val :: "char \<Rightarrow> nat" where
  "digit_val c = (case map_of (zip ''0123456789'' [0, 1, 2, 3, 4, 5, 6, 7, 8, 9]) c of
                    None \<Rightarrow> 0 | Some n \<Rightarrow> n)"

definition is_hex_digit :: "char \<Rightarrow> bool" where
  "is_hex_digit c = (c \<in> set ''0123456789abcdefABCDEF'')"

definition hex_val :: "char \<Rightarrow> nat" where
  "hex_val c =
     (case map_of (zip ''0123456789abcdefABCDEF''
                       [0, 1, 2, 3, 4, 5, 6, 7, 8, 9, 10, 11, 12, 13, 14, 15, 10, 11, 12, 13, 14, 15]) c of
        None \<Rightarrow> 0 | Some n \<Rightarrow> n)"

text \<open>
  The white space of JavaScript (the class \<^verbatim>\<open>\s\<close> of a regular expression, and what
  \<^verbatim>\<open>parseInt\<close> skips), each character in UTF-8: tab, line feed, vertical tab, form
  feed, carriage return, space, U+00A0, U+1680, U+2000 to U+200A, U+2028, U+2029,
  U+202F, U+205F, U+3000 and U+FEFF.
\<close>

definition white_space :: "string list" where
  "white_space =
     [[CHR 0x09], [CHR 0x0A], [CHR 0x0B], [CHR 0x0C], [CHR 0x0D], [CHR 0x20],
      [CHR 0xC2, CHR 0xA0],
      [CHR 0xE1, CHR 0x9A, CHR 0x80],
      [CHR 0xE2, CHR 0x80, CHR 0x80], [CHR 0xE2, CHR 0x80, CHR 0x81],
      [CHR 0xE2, CHR 0x80, CHR 0x82], [CHR 0xE2, CHR 0x80, CHR 0x83],
      [CHR 0xE2, CHR 0x80, CHR 0x84], [CHR 0xE2, CHR 0x80, CHR 0x85],
      [CHR 0xE2, CHR 0x80, CHR 0x86], [CHR 0xE2, CHR 0x80, CHR 0x87],
      [CHR 0xE2, CHR 0x80, CHR 0x88], [CHR 0xE2, CHR 0x80, CHR 0x89],
      [CHR 0xE2, CHR 0x80, CHR 0x8A],
      [CHR 0xE2, CHR 0x80, CHR 0xA8], [CHR 0xE2, CHR 0x80, CHR 0xA9],
      [CHR 0xE2, CHR 0x80, CHR 0xAF],
      [CHR 0xE2, CHR 0x81, CHR 0x9F],
      [CHR 0xE3, CHR 0x80, CHR 0x80],
      [CHR 0xEF, CHR 0xBB, CHR 0xBF]]"

text \<open>The number of bytes of the white-space character a text begins with; 0 when it
  begins with none.\<close>

definition ws_prefix :: "string \<Rightarrow> nat" where
  "ws_prefix s =
     (if take 1 s \<in> set white_space then 1
      else if take 2 s \<in> set white_space then 2
      else if take 3 s \<in> set white_space then 3
      else 0)"

text \<open>The text without its leading white space.\<close>

function skip_space :: "string \<Rightarrow> string" where
  "skip_space s = (if 0 < ws_prefix s then skip_space (drop (ws_prefix s) s) else s)"
  by pat_completeness auto

termination skip_space
proof (relation "measure length")
  show "wf (measure length)" by simp
next
  fix s :: string
  assume p: "0 < ws_prefix s"
  then have "s \<noteq> []" by (auto simp: ws_prefix_def white_space_def)
  then show "(drop (ws_prefix s) s, s) \<in> measure length" using p by simp
qed

declare skip_space.simps [simp del]

text \<open>\<^verbatim>\<open>String(n)\<close> for a natural number.\<close>

fun string_of_nat :: "nat \<Rightarrow> string" where
  "string_of_nat n =
     (if n < 10 then [''0123456789'' ! n]
      else string_of_nat (n div 10) @ [''0123456789'' ! (n mod 10)])"

declare string_of_nat.simps [simp del]

text \<open>\<^verbatim>\<open>String(x)\<close> for the result of an integer computation; \<open>None\<close> is NaN.\<close>

definition js_string :: "int option \<Rightarrow> string" where
  "js_string x =
     (case x of
        None \<Rightarrow> ''NaN''
      | Some i \<Rightarrow> if i < 0 then CHR ''-'' # string_of_nat (nat (- i)) else string_of_nat (nat i))"

text \<open>The value of a run of digits in a radix.\<close>

definition digits_value :: "nat \<Rightarrow> (char \<Rightarrow> nat) \<Rightarrow> string \<Rightarrow> nat" where
  "digits_value radix val ds = foldl (\<lambda>a c. a * radix + val c) 0 ds"

text \<open>
  \<^verbatim>\<open>parseInt(s)\<close> with no radix: leading white space, a sign, a \<^verbatim>\<open>0x\<close>
  prefix, then the longest run of digits; NaN when that run is empty. The result here is
  the integer the digits denote; the double that \<^verbatim>\<open>parseInt\<close> returns is that integer
  while it is at most \<open>2 ^ 53\<close> in magnitude (see \<open>next_number_text\<close>).
\<close>

definition parse_int :: "string \<Rightarrow> int option" where
  "parse_int s =
     (let s1 = skip_space s;
          neg = (s1 \<noteq> [] \<and> hd s1 = CHR ''-'');
          s2 = (if s1 \<noteq> [] \<and> (hd s1 = CHR ''-'' \<or> hd s1 = CHR ''+'') then tl s1 else s1);
          hex = (case s2 of a # b # r \<Rightarrow> a = CHR ''0'' \<and> (b = CHR ''x'' \<or> b = CHR ''X'') | _ \<Rightarrow> False);
          ds = (if hex then takeWhile is_hex_digit (drop 2 s2) else takeWhile is_digit s2);
          v = (if hex then digits_value 16 hex_val ds else digits_value 10 digit_val ds)
      in if ds = [] then None else Some (if neg then - int v else int v))"

text \<open>\<^verbatim>\<open>s.split("-").pop()\<close>: what follows the last hyphen.\<close>

definition last_segment :: "string \<Rightarrow> string" where
  "last_segment s = rev (takeWhile (\<lambda>c. c \<noteq> CHR ''-'') (rev s))"

text \<open>\<^verbatim>\<open>s.padStart(4, "0")\<close>\<close>

definition pad_start4 :: "string \<Rightarrow> string" where
  "pad_start4 s = replicate (4 - length s) CHR ''0'' @ s"

text \<open>
  \<^verbatim>\<open>parseFloat(s)\<close> on the strings the import passes to it, which hold digits and
  points only: the longest prefix that is a decimal literal; NaN (\<open>None\<close>) when there
  is none. The result here is the number the literal spells; \<open>literal_length\<close> counts
  its digits (see \<open>amount_column\<close>).
\<close>

definition parse_float :: "string \<Rightarrow> rat option" where
  "parse_float s =
     (let ip = takeWhile is_digit s;
          rest = dropWhile is_digit s;
          fp = (case rest of [] \<Rightarrow> [] | c # r \<Rightarrow> if c = CHR ''.'' then takeWhile is_digit r else [])
      in if ip = [] \<and> fp = [] then None
         else Some (of_nat (digits_value 10 digit_val ip)
                    + of_nat (digits_value 10 digit_val fp) / 10 ^ length fp))"

definition literal_length :: "string \<Rightarrow> nat" where
  "literal_length s =
     (let ip = takeWhile is_digit s;
          rest = dropWhile is_digit s;
          fp = (case rest of [] \<Rightarrow> [] | c # r \<Rightarrow> if c = CHR ''.'' then takeWhile is_digit r else [])
      in length ip + length fp)"

subsection \<open>POST /api/payments\<close>

record payment_body =
  b_tenant_id :: "string option"
  b_amount :: jsval
  b_payment_date :: "date option"
  b_payment_method :: "pay_method option"
  b_reference :: "string option"
  b_pnotes :: "string option"

text \<open>
  What the handler reads from its surroundings: \<^verbatim>\<open>uuid()\<close>, the date part of
  \<^verbatim>\<open>new Date().toISOString()\<close>, \<^verbatim>\<open>new Date().getFullYear()\<close>, the engine's
  CURRENT_TIMESTAMP and \<^verbatim>\<open>req.user.id\<close>; then \<open>tie_break\<close>, the engine's choice
  among the payments created last (an index into them, in table order), and
  \<open>unsafe_string\<close>, the text JavaScript gives for \<^verbatim>\<open>parseInt(s) + 1\<close> when the
  integer that \<^verbatim>\<open>s\<close> denotes is beyond \<open>2 ^ 53\<close> in magnitude.
\<close>

record env =
  new_id :: string
  today :: date
  year :: nat
  now :: nat
  user_id :: string
  tie_break :: "payment list \<Rightarrow> nat"
  unsafe_string :: "int \<Rightarrow> string"

text \<open>
  \<^verbatim>\<open>SELECT receipt_number FROM payments ORDER BY created_at DESC LIMIT 1\<close>: a row
  whose \<^verbatim>\<open>created_at\<close> no other row exceeds. \<^verbatim>\<open>created_at\<close> is a TIMESTAMP, so
  several rows may share the greatest value; which of them is returned is the engine's
  choice, \<open>tie_break\<close>.
\<close>

definition latest_rows :: "payment list \<Rightarrow> payment list" where
  "latest_rows ps = filter (\<lambda>p. list_all (\<lambda>q. created_at q \<le> created_at p) ps) ps"

definition latest :: "env \<Rightarrow> payment list \<Rightarrow> payment option" where
  "latest e ps =
     (case latest_rows ps of
        [] \<Rightarrow> None
      | c # cs \<Rightarrow> Some ((c # cs) ! (tie_break e ps mod length (c # cs))))"

text \<open>
  \<^verbatim>\<open>String(parseInt(s) + 1)\<close>, where \<open>n\<close> is the integer that \<^verbatim>\<open>s\<close> denotes.
  Integers up to \<open>2 ^ 53\<close> in magnitude are doubles, and their text is their decimal
  digits; \<open>2 ^ 53 + 1\<close> is not a double, and the sum \<open>2 ^ 53 + 1\<close> rounds to \<open>2 ^ 53\<close>.
\<close>

definition next_number_text :: "env \<Rightarrow> int \<Rightarrow> string" where
  "next_number_text e n =
     (if - (2 ^ 53) \<le> n \<and> n < 2 ^ 53 then js_string (Some (n + 1))
      else if n = 2 ^ 53 then js_string (Some n)
      else unsafe_string e n)"

text \<open>\<^verbatim>\<open>String(lastNum)\<close>\<close>

definition last_num_text :: "env \<Rightarrow> payment list \<Rightarrow> string" where
  "last_num_text e ps =
     (case latest e ps of
        None \<Rightarrow> js_string (Some 1)
      | Some p \<Rightarrow>
          (if truthy_text (receipt_number p)
           then (case parse_int (last_segment (the (receipt_number p))) of
                   None \<Rightarrow> js_string None
                 | Some n \<Rightarrow> next_number_text e n)
           else js_string (Some 1)))"

definition make_receipt_number :: "env \<Rightarrow> payment list \<Rightarrow> string" where
  "make_receipt_number e ps =
     ''RCP-'' @ string_of_nat (year e) @ ''-'' @ pad_start4 (last_num_text e ps)"

text \<open>
  The INSERT and the UPDATE are two statements: when the UPDATE is rejected (the new
  balance is out of the column's range) the payment row stays inserted.
\<close>

definition record_payment ::
  "(string \<Rightarrow> rat option) \<Rightarrow> env \<Rightarrow> db \<Rightarrow> payment_body
     \<Rightarrow> (payment \<times> string option) response \<times> db" where
  "record_payment sd e d b =
     (if \<not> truthy_text (b_tenant_id b) \<or> \<not> truthy (b_amount b)
      then (Failure 400 ''tenant_id and amount required'', d)
      else
        (let rn = make_receipt_number e (payments d);
             tid = the (b_tenant_id b)
         in case to_decimal sd (b_amount b) of
              None \<Rightarrow> (Internal BadValue, d)
            | Some a \<Rightarrow>
               (case decimal_15_2 a of
                  None \<Rightarrow> (Internal BadValue, d)
                | Some stored \<Rightarrow>
                    if new_id e \<in> p_id ` set (payments d) then (Internal DupEntry, d)
                    else if find_tenant d tid = None then (Internal ForeignKey, d)
                    else
                      (let row = \<lparr> p_id = new_id e, tenant_id = tid, amount = stored,
                                   payment_date = (case b_payment_date b of None \<Rightarrow> today e | Some x \<Rightarrow> x),
                                   payment_method = (case b_payment_method b of None \<Rightarrow> Cash | Some m \<Rightarrow> m),
                                   p_reference = Some (or_empty (b_reference b)),
                                   p_notes = Some (or_empty (b_pnotes b)),
                                   receipt_number = Some rn,
                                   recorded_by = Some (user_id e),
                                   created_at = now e \<rparr>;
                           d1 = d\<lparr>payments := payments d @ [row]\<rparr>
                       in if list_ex (\<lambda>t. t_id t = tid \<and> decimal_15_2 (amount_paid t + a) = None)
                               (tenants d)
                          then (Internal BadValue, d1)
                          else
                            (let d2 = update_tenants tid
                                        (\<lambda>t. t\<lparr>amount_paid := the (decimal_15_2 (amount_paid t + a))\<rparr>) d1
                             in (Success 201 (row, map_option tenant_name (find_tenant d2 tid)), d2))))))"

subsection \<open>DELETE /api/payments/:id\<close>

definition delete_payment :: "db \<Rightarrow> string \<Rightarrow> unit response \<times> db" where
  "delete_payment d i =
     (case find (\<lambda>p. p_id p = i) (payments d) of
        None \<Rightarrow> (Failure 404 ''Not found'', d)
      | Some p \<Rightarrow>
          (let d1 = update_tenants (tenant_id p)
                      (\<lambda>t. t\<lparr>amount_paid := max 0 (amount_paid t - amount p)\<rparr>) d;
               d2 = d1\<lparr>payments := filter (\<lambda>q. p_id q \<noteq> i) (payments d1)\<rparr>
           in (Success 200 (), d2)))"

subsection \<open>POST /api/auth/login\<close>

text \<open>\<open>compare\<close> is \<^verbatim>\<open>bcrypt.compare\<close>; the payload of a successful login is
  the user row the token and the \<^verbatim>\<open>user\<close> object are built from.\<close>

definition login ::
  "(string \<Rightarrow> string \<Rightarrow> bool) \<Rightarrow> nat \<Rightarrow> db \<Rightarrow> string option \<Rightarrow> string option
     \<Rightarrow> user response \<times> db" where
  "login compare tm d r_email r_password =
     (if \<not> truthy_text r_email \<or> \<not> truthy_text r_password
      then (Failure 400 ''Email and password required'', d)
      else case find (\<lambda>u. u_email u = the r_email \<and> is_active u) (users d) of
             None \<Rightarrow> (Failure 401 ''Invalid credentials'', d)
           | Some u \<Rightarrow>
               if \<not> compare (the r_password) (password_hash u)
               then (Failure 401 ''Invalid credentials'', d)
               else (Success 200 u,
                     d\<lparr>users := map (\<lambda>x. if u_id x = u_id u then x\<lparr>last_login := Some tm\<rparr> else x)
                                   (users d)\<rparr>))"

subsection \<open>POST /api/tenants/import\<close>

definition to_lower :: "char \<Rightarrow> char" where
  "to_lower c =
     (case map_of (zip ''ABCDEFGHIJKLMNOPQRSTUVWXYZ'' ''abcdefghijklmnopqrstuvwxyz'') c of
        None \<Rightarrow> c | Some l \<Rightarrow> l)"

text \<open>
  \<open>to_lower\<close> is the lower case of an ASCII character. \<^verbatim>\<open>toLowerCase\<close> itself, on
  any text, is the parameter \<open>lower\<close> of the import. \<open>lowers_plain\<close> says of it what
  holds of \<^verbatim>\<open>toLowerCase\<close>: on a text made of ASCII characters and white-space
  characters only, it is \<open>to_lower\<close> on each byte (which leaves the white space as it
  is).
\<close>

definition is_ascii :: "char \<Rightarrow> bool" where
  "is_ascii c = (\<not> digit7 c)"

definition plain_piece :: "string \<Rightarrow> bool" where
  "plain_piece w = (w \<in> set white_space \<or> (\<exists>c. w = [c] \<and> is_ascii c))"

definition lowers_plain :: "(string \<Rightarrow> string) \<Rightarrow> bool" where
  "lowers_plain lower =
     (\<forall>ws. list_all plain_piece ws \<longrightarrow> lower (concat ws) = map to_lower (concat ws))"

text \<open>\<^verbatim>\<open>s.replace(/[\s_]/g, "")\<close>\<close>

function strip_space_underscore :: "string \<Rightarrow> string" where
  "strip_space_underscore s =
     (if s = [] then []
      else if 0 < ws_prefix s then strip_space_underscore (drop (ws_prefix s) s)
      else if hd s = CHR ''_'' then strip_space_underscore (tl s)
      else hd s # strip_space_underscore (tl s))"
  by pat_completeness auto

termination strip_space_underscore
proof (relation "measure length")
  show "wf (measure length)" by simp
next
  fix s :: string
  assume "s \<noteq> []" and "0 < ws_prefix s"
  then show "(drop (ws_prefix s) s, s) \<in> measure length" by simp
next
  fix s :: string
  assume "s \<noteq> []"
  then show "(tl s, s) \<in> measure length" by simp
next
  fix s :: string
  assume "s \<noteq> []"
  then show "(tl s, s) \<in> measure length" by simp
qed

declare strip_space_underscore.simps [simp del]

text \<open>\<^verbatim>\<open>s.toLowerCase().replace(/[\s_]/g, "")\<close>\<close>

definition normalize :: "(string \<Rightarrow> string) \<Rightarrow> string \<Rightarrow> string" where
  "normalize lower s = strip_space_underscore (lower s)"

text \<open>
  A parsed row is an object: its headers, in the order of \<^verbatim>\<open>Object.keys\<close>, each
  with its value. \<open>g\<close> is the closure of that name in the loop body.
\<close>

type_synonym csv_row = "(string \<times> string) list"

fun g :: "(string \<Rightarrow> string) \<Rightarrow> csv_row \<Rightarrow> string list \<Rightarrow> string" where
  "g lower row [] = []"
| "g lower row (k # ks) =
     (case find (\<lambda>rk. normalize lower rk = normalize lower k) (map fst row) of
        None \<Rightarrow> g lower row ks
      | Some f \<Rightarrow>
          (case map_of row f of
             None \<Rightarrow> g lower row ks
           | Some v \<Rightarrow> if f \<noteq> [] \<and> v \<noteq> [] then v else g lower row ks))"

text \<open>\<^verbatim>\<open>parseFloat(s.replace(/[^0-9.]/g, "")) || 0\<close>, as the number the literal
  spells.\<close>

definition parse_amount :: "string \<Rightarrow> rat" where
  "parse_amount s =
     (case parse_float (filter (\<lambda>c. is_digit c \<or> c = CHR ''.'') s) of
        None \<Rightarrow> 0
      | Some r \<Rightarrow> r)"

text \<open>
  What binding that result to a \<^verbatim>\<open>DECIMAL(15,2)\<close> column stores. \<^verbatim>\<open>parseFloat\<close>
  returns a double, and the text of the double is bound. A literal of at most 15 digits
  is the text of its double, so the number it spells is assigned. For a longer literal
  the stored value is the parameter \<open>far\<close>, which gives it in hundredths from the
  stripped text (\<open>None\<close>: out of range).
\<close>

definition amount_column :: "(string \<Rightarrow> nat option) \<Rightarrow> string \<Rightarrow> rat option" where
  "amount_column far s =
     (let t = filter (\<lambda>c. is_digit c \<or> c = CHR ''.'') s
      in if literal_length t \<le> 15 then decimal_15_2 (parse_amount s)
         else map_option (\<lambda>h. of_nat h / 100) (far t))"

text \<open>The row of the INSERT, given the two amounts as stored.\<close>

definition import_row ::
  "(string \<Rightarrow> string) \<Rightarrow> string \<Rightarrow> string \<Rightarrow> nat \<Rightarrow> csv_row \<Rightarrow> rat \<Rightarrow> rat \<Rightarrow> tenant" where
  "import_row lower uid i n row rent paid =
     \<lparr> t_id = i, sn = n,
       tenant_name = g lower row [''nameoftenant'', ''tenant'', ''name''],
       accommodation_type = Some (g lower row [''typeofaccommodation'', ''type'', ''accommodation'']),
       property_address = Some (g lower row [''property'', ''address'', ''block'']),
       period = Some (g lower row [''period'']),
       lease_start = None,
       lease_end = None,
       rent_per_annum = rent,
       amount_paid = paid,
       phone = Some (g lower row [''phone'', ''mobile'']),
       email = Some (g lower row [''email'']),
       whatsapp = None,
       t_notes = Some (g lower row [''notes'', ''remarks'']),
       quit_notice = (lower (g lower row [''quitnotice'', ''quit'']) = ''yes''),
       quit_notice_date = None,
       created_by = Some uid \<rparr>"

text \<open>
  The loop over the records. \<open>ids\<close> are the results of the successive calls of
  \<^verbatim>\<open>uuid()\<close>, \<open>acc\<close> is \<^verbatim>\<open>inserted\<close>. A rejected INSERT throws out of the loop:
  the rows inserted before it stay.
\<close>

fun import_loop ::
  "(string \<Rightarrow> string) \<Rightarrow> (string \<Rightarrow> nat option) \<Rightarrow> string \<Rightarrow> (nat \<Rightarrow> string) \<Rightarrow> nat
     \<Rightarrow> csv_row list \<Rightarrow> db \<Rightarrow> tenant list \<Rightarrow> (db_error + tenant list) \<times> db" where
  "import_loop lower far uid ids k [] d acc = (Inr acc, d)"
| "import_loop lower far uid ids k (row # rows) d acc =
     (if g lower row [''nameoftenant'', ''tenant'', ''name''] = []
      then import_loop lower far uid ids k rows d acc
      else case (amount_column far (g lower row [''rentperannum'', ''rent'']),
                 amount_column far (g lower row [''amountpaid'', ''paid''])) of
        (Some rent, Some paid) \<Rightarrow>
          if ids k \<in> t_id ` set (tenants d) then (Inl DupEntry, d)
          else
            (let r = import_row lower uid (ids k) (next_sn d) row rent paid;
                 d' = d\<lparr>tenants := tenants d @ [r], next_sn := Suc (next_sn d)\<rparr>
             in import_loop lower far uid ids (Suc k) rows d' (acc @ [r]))
      | _ \<Rightarrow> (Inl BadValue, d))"

definition import_tenants ::
  "(string \<Rightarrow> string) \<Rightarrow> (string \<Rightarrow> nat option) \<Rightarrow> string \<Rightarrow> (nat \<Rightarrow> string) \<Rightarrow> db
     \<Rightarrow> csv_row list option \<Rightarrow> (nat \<times> tenant list) response \<times> db" where
  "import_tenants lower far uid ids d file =
     (case file of
        None \<Rightarrow> (Failure 400 ''No file'', d)
      | Some records \<Rightarrow>
          (case import_loop lower far uid ids 0 records d [] of
             (Inl e, d') \<Rightarrow> (Internal e, d')
           | (Inr inserted, d') \<Rightarrow> (Success 200 (length inserted, inserted), d')))"

text \<open>
  Normalising in the words of the specification, on a text given in pieces, each an ASCII
  character or a white-space character: white space and underscores are dropped, the
  other characters are lower-cased.
\<close>

definition normal_piece :: "string \<Rightarrow> string" where
  "normal_piece w = (if w \<in> set white_space \<or> w = ''_'' then [] else map to_lower w)"

text \<open>
  The resolution of a field in the words of the specification: headers are compared
  after normalising; the synonyms of the field are tried in their order; the first
  one whose header holds a non-empty value gives the value of the field.
\<close>

definition header_value :: "(string \<Rightarrow> string) \<Rightarrow> csv_row \<Rightarrow> string \<Rightarrow> string" where
  "header_value lower row k =
     (case find (\<lambda>(h, v). normalize lower h = normalize lower k) row of
        None \<Rightarrow> [] | Some (h, v) \<Rightarrow> v)"

definition resolve_field :: "(string \<Rightarrow> string) \<Rightarrow> csv_row \<Rightarrow> string list \<Rightarrow> string" where
  "resolve_field lower row keys =
     (case filter (\<lambda>v. v \<noteq> []) (map (header_value lower row) keys) of [] \<Rightarrow> [] | v # _ \<Rightarrow> v)"

subsection \<open>DELETE /api/tenants/:id\<close>

text \<open>The foreign key of \<^verbatim>\<open>payments\<close> deletes the payments of a deleted tenant.\<close>

definition delete_tenant :: "db \<Rightarrow> string \<Rightarrow> unit response \<times> db" where
  "delete_tenant d i =
     (Success 200 (),
      d\<lparr>tenants := filter (\<lambda>t. t_id t \<noteq> i) (tenants d),
        payments := (if i \<in> t_id ` set (tenants d)
                     then filter (\<lambda>p. tenant_id p \<noteq> i) (payments d)
                     else payments d)\<rparr>)"

subsection \<open>Sequences of requests\<close>

datatype op =
    Create string string tenant_body
  | Update string tenant_body
  | PatchPayment string jsval
  | PatchQuit date string jsval
  | DeleteTenant string
  | Import "string \<Rightarrow> string" "string \<Rightarrow> nat option" string "nat \<Rightarrow> string"
      "csv_row list option"
  | RecordPayment env payment_body
  | DeletePayment string

fun step :: "(string \<Rightarrow> rat option) \<Rightarrow> db \<Rightarrow> op \<Rightarrow> db" where
  "step sd d (Create uid i b) = snd (create_tenant sd uid i d b)"
| "step sd d (Update i b) = snd (update_tenant sd d i b)"
| "step sd d (PatchPayment i v) = snd (patch_payment sd d i v)"
| "step sd d (PatchQuit td i v) = snd (patch_quit td d i v)"
| "step sd d (DeleteTenant i) = snd (delete_tenant d i)"
| "step sd d (Import lower far uid ids file) = snd (import_tenants lower far uid ids d file)"
| "step sd d (RecordPayment e b) = snd (record_payment sd e d b)"
| "step sd d (DeletePayment i) = snd (delete_payment d i)"

definition run :: "(string \<Rightarrow> rat option) \<Rightarrow> db \<Rightarrow> op list \<Rightarrow> db" where
  "run sd d ops = foldl (step sd) d ops"

text \<open>The amount a request supplies for \<^verbatim>\<open>amount_paid\<close> (or for a payment), as the
  engine reads it, is not negative.\<close>

definition supplied_nonneg :: "(string \<Rightarrow> rat option) \<Rightarrow> jsval \<Rightarrow> bool" where
  "supplied_nonneg sd v = (case to_decimal sd (or_zero v) of None \<Rightarrow> True | Some r \<Rightarrow> 0 \<le> r)"

fun op_nonneg :: "(string \<Rightarrow> rat option) \<Rightarrow> op \<Rightarrow> bool" where
  "op_nonneg sd (Create uid i b) = supplied_nonneg sd (b_amount_paid b)"
| "op_nonneg sd (Update i b) = supplied_nonneg sd (b_amount_paid b)"
| "op_nonneg sd (PatchPayment i v) = supplied_nonneg sd v"
| "op_nonneg sd (RecordPayment e b) = supplied_nonneg sd (b_amount b)"
| "op_nonneg sd _ = True"

definition balances_nonneg :: "db \<Rightarrow> bool" where
  "balances_nonneg d = list_all (\<lambda>t. 0 \<le> amount_paid t) (tenants d)"

subsection \<open>Sample rows\<close>

text \<open>Rows of the seed data of the schema, with an identifier for the seeded payment,
  and a second, disabled user.\<close>

definition seed_tenant :: tenant where
  "seed_tenant =
     \<lparr> t_id = ''t-002'', sn = 2, tenant_name = ''Ngozi Eze'',
       accommodation_type = Some ''Self-Contain'', property_address = Some ''Block B, No. 2'',
       period = Some ''Mar 2024 - Feb 2025'', lease_start = Some 19783, lease_end = Some 20147,
       rent_per_annum = 220000, amount_paid = 150000, phone = Some ''08023456789'',
       email = Some ''ngozi@email.com'', whatsapp = Some ''08023456789'', t_notes = None,
       quit_notice = False, quit_notice_date = None, created_by = None \<rparr>"

definition seed_payment :: payment where
  "seed_payment =
     \<lparr> p_id = ''p-002'', tenant_id = ''t-002'', amount = 150000, payment_date = 19792,
       payment_method = Cash, p_reference = None, p_notes = None,
       receipt_number = Some ''RCP-2024-002'', recorded_by = None, created_at = 1710028800 \<rparr>"

definition seed_admin :: user where
  "seed_admin =
     \<lparr> u_id = ''admin-001'', u_name = ''Admin User'', u_email = ''admin@estateiq.ng'',
       password_hash = ''$2b$10$92IXUNpkjO0rOQ5byMi.Ye4oKoEa3Ro9llC/.og/at2.uheWG/igi'',
       role = ''admin'', is_active = True, last_login = None \<rparr>"

definition seed_db :: db where
  "seed_db = \<lparr> tenants = [seed_tenant], payments = [seed_payment], users = [seed_admin], next_sn = 3 \<rparr>"

definition disabled_db :: db where
  "disabled_db = seed_db\<lparr>users := [seed_admin\<lparr>is_active := False\<rparr>]\<rparr>"

definition sample_env :: env where
  "sample_env =
     \<lparr> new_id = ''p-100'', today = 20758, year = 2026, now = 1793491200, user_id = ''admin-001'',
       tie_break = (\<lambda>ps. 0), unsafe_string = (\<lambda>n. ''Infinity'') \<rparr>"

definition sample_body :: payment_body where
  "sample_body =
     \<lparr> b_tenant_id = Some ''t-002'', b_amount = Num 50000, b_payment_date = None,
       b_payment_method = None, b_reference = None, b_pnotes = None \<rparr>"

text \<open>A password check that accepts the seeded password for every hash.\<close>

definition sample_compare :: "string \<Rightarrow> string \<Rightarrow> bool" where
  "sample_compare pw h = (pw = ''Admin@1234'')"

text \<open>No string is read as a number.\<close>

definition no_strings :: "string \<Rightarrow> rat option" where
  "no_strings s = None"




text \<open>\<^verbatim>\<open>toLowerCase\<close> on ASCII texts, and no literal of more than 15 digits.\<close>

definition ascii_lower :: "string \<Rightarrow> string" where
  "ascii_lower s = map to_lower s"

definition no_far :: "string \<Rightarrow> nat option" where
  "no_far s = None"

text \<open>A row whose header begins with a byte order mark and has a no-break space in
  it.\<close>

definition marked_row :: csv_row where
  "marked_row =
     [([CHR 0xEF, CHR 0xBB, CHR 0xBF] @ ''Name'' @ [CHR 0xC2, CHR 0xA0] @ ''of Tenant'', ''Jane Doe'')]"

text \<open>Identifiers for imported rows.\<close>

definition sample_ids :: "nat \<Rightarrow> string" where
  "sample_ids n = ''t-10'' @ string_of_nat n"

text \<open>The row of the import example: \<^verbatim>\<open>Name of Tenant\<close>, \<^verbatim>\<open>Rent Per Annum\<close>; the
  first three bytes of the rent are the naira sign in UTF-8.\<close>

definition sample_row :: csv_row where
  "sample_row =
     [(''Name of Tenant'', ''Jane Doe''),
      (''Rent Per Annum'', [CHR 0xE2, CHR 0x82, CHR 0xA6] @ ''150,000'')]"

section \<open>Properties\<close>

subsection \<open>Assignment to a \<^verbatim>\<open>DECIMAL(15,2)\<close> column\<close>

lemma floor_rat_numeral [simp]:
  "\<lfloor>numeral a / numeral b :: rat\<rfloor> = numeral a div numeral b"
  "\<lfloor>1 / numeral b :: rat\<rfloor> = 1 div numeral b"
  "\<lfloor>- (numeral a / numeral b) :: rat\<rfloor> = - numeral a div numeral b"
  "\<lfloor>- (1 / numeral b) :: rat\<rfloor> = - 1 div numeral b"
proof -
  show "\<lfloor>numeral a / numeral b :: rat\<rfloor> = numeral a div numeral b"
    by (metis floor_divide_of_int_eq of_int_numeral)
  show "\<lfloor>1 / numeral b :: rat\<rfloor> = 1 div numeral b"
    by (metis floor_divide_of_int_eq of_int_1 of_int_numeral)
  show "\<lfloor>- (numeral a / numeral b) :: rat\<rfloor> = - numeral a div numeral b"
    by (metis divide_minus_left floor_divide_of_int_eq of_int_neg_numeral of_int_numeral)
  show "\<lfloor>- (1 / numeral b) :: rat\<rfloor> = - 1 div numeral b"
    by (metis (mono_tags, opaque_lifting) div_minus_right minus_divide_right
        floor_divide_of_int_eq of_int_neg_numeral of_int_1)
qed

lemma round_half_away_int: "round_half_away (of_int k) = k"
proof (cases "0 \<le> k")
  case True
  have "\<lfloor>(of_int k :: rat) + 1 / 2\<rfloor> = k" by (simp add: floor_unique)
  then show ?thesis using True by (simp add: round_half_away_def)
next
  case False
  have "\<lfloor>- (of_int k :: rat) + 1 / 2\<rfloor> = - k"
    by (intro floor_unique) simp_all
  then show ?thesis using False by (simp add: round_half_away_def)
qed

lemma decimal_fits:
  assumes "v * 100 \<in> \<int>" and "\<bar>v\<bar> < 10 ^ 13"
  shows "decimal_15_2 v = Some v"
proof -
  obtain k where k: "v * 100 = of_int k" using assms(1) by (auto elim: Ints_cases)
  have "of_int (round_half_away (v * 100)) / 100 = v"
    unfolding k round_half_away_int using k [symmetric] by simp
  then show ?thesis using assms(2) by (simp add: decimal_15_2_def)
qed

lemma round_half_away_nonneg: "0 \<le> x \<Longrightarrow> 0 \<le> round_half_away x"
  by (simp add: round_half_away_def)

lemma decimal_nonneg:
  assumes "0 \<le> v" and "decimal_15_2 v = Some r"
  shows "0 \<le> r"
proof -
  have "0 \<le> round_half_away (v * 100)" using assms(1) by (intro round_half_away_nonneg) simp
  then show ?thesis using assms(2) by (auto simp: decimal_15_2_def Let_def split: if_splits)
qed

lemma decimal_zero: "decimal_15_2 0 = Some 0"
  by (simp add: decimal_15_2_def round_half_away_def)

subsection \<open>Lookups after an update\<close>

lemma find_map_update:
  assumes "\<And>t. t_id (f t) = t_id t"
  shows "find (\<lambda>t. t_id t = j) (map (\<lambda>t. if t_id t = i then f t else t) ts)
         = map_option (\<lambda>t. if t_id t = i then f t else t) (find (\<lambda>t. t_id t = j) ts)"
  using assms by (induction ts) auto

lemma find_tenant_update:
  assumes "\<And>t. t_id (f t) = t_id t"
  shows "find_tenant (update_tenants i f d) j
         = map_option (\<lambda>t. if t_id t = i then f t else t) (find_tenant d j)"
  using find_map_update [OF assms] by (simp add: find_tenant_def update_tenants_def)

lemma find_tenant_id: "find_tenant d i = Some t \<Longrightarrow> t_id t = i"
  by (auto simp: find_tenant_def find_Some_iff)

lemma find_tenant_update_same:
  assumes "\<And>t. t_id (f t) = t_id t" and "find_tenant d i = Some t"
  shows "find_tenant (update_tenants i f d) i = Some (f t)"
  using assms find_tenant_id [OF assms(2)] by (simp add: find_tenant_update)

lemma find_tenant_update_other:
  assumes "\<And>t. t_id (f t) = t_id t" and "j \<noteq> i"
  shows "find_tenant (update_tenants i f d) j = find_tenant d j"
proof (cases "find_tenant d j")
  case None
  then show ?thesis using assms by (simp add: find_tenant_update)
next
  case (Some t)
  then show ?thesis using assms find_tenant_id [OF Some] by (simp add: find_tenant_update)
qed

lemma find_seed_tenant: "find_tenant seed_db ''t-002'' = Some seed_tenant"
  by (simp add: find_tenant_def seed_db_def seed_tenant_def)

subsection \<open>Tables with a unique key\<close>


lemma find_conj_distinct:
  assumes "distinct (map k xs)" and "x \<in> set xs"
  shows "find (\<lambda>y. k y = k x \<and> P y) xs = (if P x then Some x else None)"
  using assms
proof (induction xs)
  case Nil
  then show ?case by simp
next
  case (Cons y ys)
  show ?case
  proof (cases "y = x")
    case True
    then have "\<forall>z \<in> set ys. k z \<noteq> k x" using Cons.prems by (auto simp: rev_image_eqI)
    then have "find (\<lambda>z. k z = k x \<and> P z) ys = None" by (auto simp: find_None_iff)
    then show ?thesis using True by simp
  next
    case False
    then have "x \<in> set ys" and "k y \<noteq> k x" using Cons.prems by (auto simp: rev_image_eqI)
    then show ?thesis using Cons by simp
  qed
qed



subsection \<open>The payment-only patch\<close>

text \<open>
  C10, as stated, fails: the supplied number 0.001 is not zero, and the balance stored
  for it is 0, not 0.001; the column holds two decimal places.
\<close>

theorem patch_payment_rounds_counterexample:
  "(1 / 1000 :: rat) \<noteq> 0
   \<and> fst (patch_payment no_strings seed_db ''t-002'' (Num (1 / 1000)))
       = Success 200 (Some (seed_tenant\<lparr>amount_paid := 0\<rparr>))
   \<and> map amount_paid (tenants (snd (patch_payment no_strings seed_db ''t-002'' (Num (1 / 1000)))))
       = [0]"
  by (simp add: patch_payment_def bind_decimal_def or_zero_def decimal_15_2_def
      round_half_away_def update_tenants_def find_tenant_def Let_def seed_db_def seed_tenant_def)

text \<open>
  C10, amended. On an existing tenant, the payment-only patch answers 200 and stores the
  supplied \<^verbatim>\<open>amount_paid\<close> itself when it is a number other than zero with at most two
  decimal places and within the range of the column; any other number other than zero
  is stored rounded to two places, a half away from zero, or rejected with status 500
  when the rounded value is out of range. When the field is omitted or is any falsy
  value (0, null, the empty string, false) the patch stores 0: nothing fails
  validation.
\<close>

theorem patch_payment_sets_amount_paid:
  assumes "find_tenant d i = Some t"
  shows "(r \<noteq> 0 \<and> r * 100 \<in> \<int> \<and> \<bar>r\<bar> < 10 ^ 13 \<longrightarrow>
            fst (patch_payment sd d i (Num r)) = Success 200 (Some (t\<lparr>amount_paid := r\<rparr>))
          \<and> find_tenant (snd (patch_payment sd d i (Num r))) i = Some (t\<lparr>amount_paid := r\<rparr>))
       \<and> (r \<noteq> 0 \<and> \<bar>of_int (round_half_away (r * 100)) / 100 :: rat\<bar> < 10 ^ 13 \<longrightarrow>
            find_tenant (snd (patch_payment sd d i (Num r))) i
              = Some (t\<lparr>amount_paid := of_int (round_half_away (r * 100)) / 100\<rparr>))
       \<and> (r \<noteq> 0 \<and> \<not> \<bar>of_int (round_half_away (r * 100)) / 100 :: rat\<bar> < 10 ^ 13 \<longrightarrow>
            patch_payment sd d i (Num r) = (Internal BadValue, d))
       \<and> (v \<in> {Undefined, Null, Num 0, Str [], Boolean False} \<or> \<not> truthy v \<longrightarrow>
            fst (patch_payment sd d i v) = Success 200 (Some (t\<lparr>amount_paid := 0\<rparr>))
          \<and> find_tenant (snd (patch_payment sd d i v)) i = Some (t\<lparr>amount_paid := 0\<rparr>))"
proof -
  have upd: "\<And>x. find_tenant (update_tenants i (\<lambda>t. t\<lparr>amount_paid := x\<rparr>) d) i
                  = Some (t\<lparr>amount_paid := x\<rparr>)"
    using assms by (simp add: find_tenant_update_same)
  have falsy: "v \<in> {Undefined, Null, Num 0, Str [], Boolean False} \<Longrightarrow> \<not> truthy v"
    by auto
  have zero: "\<not> truthy v \<Longrightarrow> bind_decimal sd (or_zero v) = Some 0"
    by (simp add: bind_decimal_def or_zero_def decimal_zero)
  have num: "r \<noteq> 0 \<Longrightarrow> bind_decimal sd (or_zero (Num r)) = decimal_15_2 r"
    by (simp add: bind_decimal_def or_zero_def)
  have fits: "r * 100 \<in> \<int> \<and> \<bar>r\<bar> < 10 ^ 13 \<Longrightarrow> decimal_15_2 r = Some r"
    by (simp add: decimal_fits)
  have a: "r \<noteq> 0 \<and> r * 100 \<in> \<int> \<and> \<bar>r\<bar> < 10 ^ 13 \<longrightarrow>
            fst (patch_payment sd d i (Num r)) = Success 200 (Some (t\<lparr>amount_paid := r\<rparr>))
          \<and> find_tenant (snd (patch_payment sd d i (Num r))) i = Some (t\<lparr>amount_paid := r\<rparr>)"
    using assms upd num fits by (simp add: patch_payment_def Let_def)
  have b: "r \<noteq> 0 \<and> \<bar>of_int (round_half_away (r * 100)) / 100 :: rat\<bar> < 10 ^ 13 \<longrightarrow>
            find_tenant (snd (patch_payment sd d i (Num r))) i
              = Some (t\<lparr>amount_paid := of_int (round_half_away (r * 100)) / 100\<rparr>)"
    using assms upd num by (simp add: patch_payment_def Let_def decimal_15_2_def)
  have c: "r \<noteq> 0 \<and> \<not> \<bar>of_int (round_half_away (r * 100)) / 100 :: rat\<bar> < 10 ^ 13 \<longrightarrow>
            patch_payment sd d i (Num r) = (Internal BadValue, d)"
    using assms num by (simp add: patch_payment_def Let_def decimal_15_2_def)
  have e: "v \<in> {Undefined, Null, Num 0, Str [], Boolean False} \<or> \<not> truthy v \<longrightarrow>
            fst (patch_payment sd d i v) = Success 200 (Some (t\<lparr>amount_paid := 0\<rparr>))
          \<and> find_tenant (snd (patch_payment sd d i v)) i = Some (t\<lparr>amount_paid := 0\<rparr>)"
    using assms upd falsy zero by (auto simp: patch_payment_def Let_def)
  show ?thesis using a b c e by (intro conjI)
qed

theorem patch_payment_sets_amount_paid_witness:
  "find_tenant seed_db ''t-002'' = Some seed_tenant
   \<and> (1234.5 :: rat) \<noteq> 0 \<and> (1234.5 :: rat) * 100 \<in> \<int> \<and> \<bar>1234.5 :: rat\<bar> < 10 ^ 13
   \<and> find_tenant (snd (patch_payment no_strings seed_db ''t-002'' (Num 1234.5))) ''t-002''
       = Some (seed_tenant\<lparr>amount_paid := 1234.5\<rparr>)
   \<and> find_tenant (snd (patch_payment no_strings seed_db ''t-002'' Undefined)) ''t-002''
       = Some (seed_tenant\<lparr>amount_paid := 0\<rparr>)"
proof -
  have h: "(1234.5 :: rat) \<noteq> 0 \<and> (1234.5 :: rat) * 100 \<in> \<int> \<and> \<bar>1234.5 :: rat\<bar> < 10 ^ 13"
    by simp
  have f: "Undefined \<in> {Undefined, Null, Num 0, Str [], Boolean False} \<or> \<not> truthy Undefined"
    by simp
  note T = patch_payment_sets_amount_paid
             [OF find_seed_tenant, where r = "1234.5" and sd = no_strings and v = Undefined]
  have a: "find_tenant (snd (patch_payment no_strings seed_db ''t-002'' (Num 1234.5))) ''t-002''
       = Some (seed_tenant\<lparr>amount_paid := 1234.5\<rparr>)"
    using mp [OF T [THEN conjunct1] h] by (rule conjunct2)
  have b: "find_tenant (snd (patch_payment no_strings seed_db ''t-002'' Undefined)) ''t-002''
       = Some (seed_tenant\<lparr>amount_paid := 0\<rparr>)"
    using mp [OF T [THEN conjunct2, THEN conjunct2, THEN conjunct2] f] by (rule conjunct2)
  show ?thesis using find_seed_tenant h a b by (intro conjI) simp_all
qed

subsection \<open>The quit-notice toggle\<close>

text \<open>
  C7, as stated, fails: a tenant already under quit notice since day 20700, toggled to
  true again on day 20758, has its \<^verbatim>\<open>quit_notice_date\<close> moved to day 20758.
\<close>

theorem patch_quit_restamps_counterexample:
  "quit_notice (the (find_tenant (snd (patch_quit 20700 seed_db ''t-002'' (Boolean True))) ''t-002''))
     = truthy (Boolean True)
   \<and> quit_notice_date
       (the (find_tenant
          (snd (patch_quit 20758 (snd (patch_quit 20700 seed_db ''t-002'' (Boolean True)))
                  ''t-002'' (Boolean True))) ''t-002''))
     \<noteq> quit_notice_date
         (the (find_tenant (snd (patch_quit 20700 seed_db ''t-002'' (Boolean True))) ''t-002''))"
  by (simp add: patch_quit_def Let_def find_tenant_update_same find_seed_tenant)

text \<open>
  C7, amended. On an existing tenant, the toggle sets \<^verbatim>\<open>quit_notice\<close> to the
  truthiness of the supplied value, and sets \<^verbatim>\<open>quit_notice_date\<close> to the current
  date whenever that value is truthy, whatever the flag was before, and to null
  whenever it is falsy.
\<close>

theorem patch_quit_stamps:
  assumes "find_tenant d i = Some t"
  shows "find_tenant (snd (patch_quit td d i v)) i
         = Some (t\<lparr>quit_notice := truthy v,
                  quit_notice_date := (if truthy v then Some td else None)\<rparr>)"
  using assms by (simp add: patch_quit_def Let_def find_tenant_update_same)

theorem patch_quit_stamps_witness:
  "find_tenant seed_db ''t-002'' = Some seed_tenant
   \<and> find_tenant (snd (patch_quit 20758 seed_db ''t-002'' (Boolean True))) ''t-002''
       = Some (seed_tenant\<lparr>quit_notice := True, quit_notice_date := Some 20758\<rparr>)"
  using find_seed_tenant patch_quit_stamps [OF find_seed_tenant, where td = 20758 and v = "Boolean True"]
  by simp

subsection \<open>Derived payment status\<close>

lemma set_list_tenants:
  "set (list_tenants like cd d search status)
   = {t \<in> set (tenants d). (truthy_text search \<longrightarrow> search_clause like (the search) t)
                            \<and> status_clause cd status t}"
  by (auto simp: list_tenants_def)

lemma length_list_tenants_no_search:
  "\<not> truthy_text search \<Longrightarrow>
   length (list_tenants like cd d search status) = length (filter (status_clause cd status) (tenants d))"
  by (simp add: list_tenants_def)

text \<open>
  C1. A tenant is returned by the list filter for \<^verbatim>\<open>paid\<close> exactly when its rent is
  positive and its amount paid reaches the rent, for \<^verbatim>\<open>partial\<close> exactly when the
  amount paid lies strictly between zero and the rent, for \<^verbatim>\<open>unpaid\<close> exactly when
  the amount paid is zero (together with the search clause, when a search is given). The
  dashboard counters count the tenants under the same three conditions, so each equals
  the length of the corresponding filtered list; over an empty table they are NULL. The
  conditions read nothing but the two amounts, and a tenant whose rent is zero is never
  listed as paid.
\<close>

theorem derived_status_predicates:
  "(t \<in> set (list_tenants like cd d search (Some ''paid'')) \<longleftrightarrow>
      t \<in> set (tenants d) \<and> (truthy_text search \<longrightarrow> search_clause like (the search) t)
      \<and> rent_per_annum t > 0 \<and> amount_paid t \<ge> rent_per_annum t)
   \<and> (t \<in> set (list_tenants like cd d search (Some ''partial'')) \<longleftrightarrow>
      t \<in> set (tenants d) \<and> (truthy_text search \<longrightarrow> search_clause like (the search) t)
      \<and> 0 < amount_paid t \<and> amount_paid t < rent_per_annum t)
   \<and> (t \<in> set (list_tenants like cd d search (Some ''unpaid'')) \<longleftrightarrow>
      t \<in> set (tenants d) \<and> (truthy_text search \<longrightarrow> search_clause like (the search) t)
      \<and> amount_paid t = 0)
   \<and> fully_paid (stats_summary cd d)
       = (if tenants d = [] then None
          else Some (length (filter (\<lambda>t. rent_per_annum t > 0 \<and> amount_paid t \<ge> rent_per_annum t) (tenants d))))
   \<and> partial_paid (stats_summary cd d)
       = (if tenants d = [] then None
          else Some (length (filter (\<lambda>t. 0 < amount_paid t \<and> amount_paid t < rent_per_annum t) (tenants d))))
   \<and> unpaid_count (stats_summary cd d)
       = (if tenants d = [] then None
          else Some (length (filter (\<lambda>t. amount_paid t = 0) (tenants d))))
   \<and> (tenants d \<noteq> [] \<longrightarrow>
        fully_paid (stats_summary cd d) = Some (length (list_tenants like cd d None (Some ''paid'')))
      \<and> partial_paid (stats_summary cd d) = Some (length (list_tenants like cd d None (Some ''partial'')))
      \<and> unpaid_count (stats_summary cd d) = Some (length (list_tenants like cd d None (Some ''unpaid''))))
   \<and> (rent_per_annum t = 0 \<longrightarrow> t \<notin> set (list_tenants like cd d search (Some ''paid'')))"
proof -
  have p: "is_paid = (\<lambda>t. rent_per_annum t > 0 \<and> amount_paid t \<ge> rent_per_annum t)"
    by (auto simp: is_paid_def fun_eq_iff)
  have q: "is_partial = (\<lambda>t. 0 < amount_paid t \<and> amount_paid t < rent_per_annum t)"
    by (auto simp: is_partial_def fun_eq_iff)
  have u: "is_unpaid = (\<lambda>t. amount_paid t = 0)"
    by (auto simp: is_unpaid_def fun_eq_iff)
  have s: "status_clause cd (Some ''paid'') = is_paid"
          "status_clause cd (Some ''partial'') = is_partial"
          "status_clause cd (Some ''unpaid'') = is_unpaid"
    by (simp_all add: status_clause_def fun_eq_iff)
  have members: "\<And>st. t \<in> set (list_tenants like cd d search st) \<longleftrightarrow>
      t \<in> set (tenants d) \<and> (truthy_text search \<longrightarrow> search_clause like (the search) t)
      \<and> status_clause cd st t"
    by (simp add: set_list_tenants)
  have counts: "\<And>st. length (list_tenants like cd d None st)
                      = length (filter (status_clause cd st) (tenants d))"
    by (simp add: length_list_tenants_no_search)
  have sums: "fully_paid (stats_summary cd d) = sql_count is_paid (tenants d)"
             "partial_paid (stats_summary cd d) = sql_count is_partial (tenants d)"
             "unpaid_count (stats_summary cd d) = sql_count is_unpaid (tenants d)"
    by (simp_all add: stats_summary_def Let_def)
  show ?thesis
    unfolding members counts sums s sql_count_def unfolding p q u by auto
qed

theorem derived_status_predicates_witness:
  "truthy_text (Some ''Ngozi'')
   \<and> search_clause (\<lambda>pat x. True) ''Ngozi'' seed_tenant
   \<and> seed_tenant \<in> set (list_tenants (\<lambda>pat x. True) 20758 seed_db (Some ''Ngozi'') (Some ''partial''))
   \<and> seed_tenant \<notin> set (list_tenants (\<lambda>pat x. True) 20758 seed_db (Some ''Ngozi'') (Some ''paid''))
   \<and> tenants seed_db \<noteq> []
   \<and> partial_paid (stats_summary 20758 seed_db) = Some 1
   \<and> fully_paid (stats_summary 20758 seed_db) = Some 0
   \<and> rent_per_annum (seed_tenant\<lparr>rent_per_annum := 0\<rparr>) = 0
   \<and> seed_tenant\<lparr>rent_per_annum := 0\<rparr>
       \<notin> set (list_tenants (\<lambda>pat x. True) 20758
                (seed_db\<lparr>tenants := [seed_tenant\<lparr>rent_per_annum := 0\<rparr>]\<rparr>) None (Some ''paid''))"
  using derived_status_predicates [of seed_tenant "\<lambda>pat x. True" 20758 seed_db "Some ''Ngozi''"]
    derived_status_predicates [of "seed_tenant\<lparr>rent_per_annum := 0\<rparr>" "\<lambda>pat x. True" 20758
      "seed_db\<lparr>tenants := [seed_tenant\<lparr>rent_per_annum := 0\<rparr>]\<rparr>" None]
  by (simp add: seed_db_def seed_tenant_def search_clause_def)

subsection \<open>Recording a payment\<close>





subsection \<open>Deleting a payment\<close>



subsection \<open>Login\<close>

text \<open>
  C9. With e-mail addresses unique and a request carrying an e-mail address and a
  password: when the account with that address is disabled, and when it is active and
  the password does not match, the answer is the same, status 401 with the message
  \<^verbatim>\<open>Invalid credentials\<close>, and the database is left as it was.
\<close>

theorem login_disabled_indistinguishable:
  assumes "truthy_text em" and "truthy_text pw1" and "truthy_text pw2"
    and "distinct (map u_email (users d1))" and "distinct (map u_email (users d2))"
    and "u1 \<in> set (users d1)" and "u_email u1 = the em" and "\<not> is_active u1"
    and "u2 \<in> set (users d2)" and "u_email u2 = the em" and "is_active u2"
    and "\<not> compare (the pw2) (password_hash u2)"
  shows "login compare tm1 d1 em pw1 = (Failure 401 ''Invalid credentials'', d1)
       \<and> login compare tm2 d2 em pw2 = (Failure 401 ''Invalid credentials'', d2)
       \<and> fst (login compare tm1 d1 em pw1) = fst (login compare tm2 d2 em pw2)"
proof -
  have f1: "find (\<lambda>x. u_email x = the em \<and> is_active x) (users d1) = None"
    using find_conj_distinct [OF assms(4) assms(6), of is_active] assms(7,8) by simp
  have f2: "find (\<lambda>x. u_email x = the em \<and> is_active x) (users d2) = Some u2"
    using find_conj_distinct [OF assms(5) assms(9), of is_active] assms(10,11) by simp
  have l1: "login compare tm1 d1 em pw1 = (Failure 401 ''Invalid credentials'', d1)"
    using assms(1,2) f1 by (simp add: login_def)
  have l2: "login compare tm2 d2 em pw2 = (Failure 401 ''Invalid credentials'', d2)"
    using assms(1,3,12) f2 by (simp add: login_def)
  show ?thesis using l1 l2 by simp
qed

theorem login_disabled_indistinguishable_witness:
  "truthy_text (Some ''admin@estateiq.ng'') \<and> truthy_text (Some ''Admin@1234'')
   \<and> truthy_text (Some ''guess'')
   \<and> distinct (map u_email (users disabled_db)) \<and> distinct (map u_email (users seed_db))
   \<and> seed_admin\<lparr>is_active := False\<rparr> \<in> set (users disabled_db)
   \<and> \<not> is_active (seed_admin\<lparr>is_active := False\<rparr>)
   \<and> seed_admin \<in> set (users seed_db) \<and> is_active seed_admin
   \<and> \<not> sample_compare ''guess'' (password_hash seed_admin)
   \<and> fst (login sample_compare 0 disabled_db (Some ''admin@estateiq.ng'') (Some ''Admin@1234''))
     = fst (login sample_compare 0 seed_db (Some ''admin@estateiq.ng'') (Some ''guess''))"
proof -
  have h: "truthy_text (Some ''admin@estateiq.ng'')" "truthy_text (Some ''Admin@1234'')"
    "truthy_text (Some ''guess'')"
    "distinct (map u_email (users disabled_db))" "distinct (map u_email (users seed_db))"
    "seed_admin\<lparr>is_active := False\<rparr> \<in> set (users disabled_db)"
    "u_email (seed_admin\<lparr>is_active := False\<rparr>) = the (Some ''admin@estateiq.ng'')"
    "\<not> is_active (seed_admin\<lparr>is_active := False\<rparr>)"
    "seed_admin \<in> set (users seed_db)" "u_email seed_admin = the (Some ''admin@estateiq.ng'')"
    "is_active seed_admin"
    "\<not> sample_compare (the (Some ''guess'')) (password_hash seed_admin)"
    by (simp_all add: disabled_db_def seed_db_def seed_admin_def sample_compare_def)
  show ?thesis
    using h login_disabled_indistinguishable
              [where compare = sample_compare and ?tm1.0 = 0 and ?tm2.0 = 0, OF h]
    by simp
qed

subsection \<open>Validation of a record-payment request\<close>

text \<open>
  C6, as stated, fails: a request for an existing tenant with the amount -5 is not
  rejected; it is answered 201 and the tenant's \<^verbatim>\<open>amount_paid\<close> goes from 150000 to
  149995.
\<close>

theorem record_payment_negative_counterexample:
  "b_tenant_id (sample_body\<lparr>b_amount := Num (- 5)\<rparr>) = Some ''t-002''
   \<and> b_amount (sample_body\<lparr>b_amount := Num (- 5)\<rparr>) = Num (- 5)
   \<and> status_of (fst (record_payment no_strings sample_env seed_db (sample_body\<lparr>b_amount := Num (- 5)\<rparr>))) = 201
   \<and> map amount_paid (tenants (snd (record_payment no_strings sample_env seed_db (sample_body\<lparr>b_amount := Num (- 5)\<rparr>))))
      = [149995]"
  by (simp add: record_payment_def sample_body_def sample_env_def seed_db_def seed_tenant_def
      seed_payment_def find_tenant_def update_tenants_def decimal_15_2_def round_half_away_def
      Let_def)

text \<open>
  C6, amended. A record-payment request is answered 400 exactly when \<^verbatim>\<open>tenant_id\<close>
  is falsy (absent, null or empty) or \<^verbatim>\<open>amount\<close> is falsy (absent, null, false, 0 or
  the empty string). A request with a tenant identifier and a number other than zero as
  amount, positive or negative, passes validation; a recorded payment has the supplied
  date and method, or today's date and cash where they are omitted.
\<close>

theorem record_payment_validation:
  "(status_of (fst (record_payment sd e d b)) = 400
      \<longleftrightarrow> \<not> truthy_text (b_tenant_id b) \<or> \<not> truthy (b_amount b))
   \<and> (\<not> truthy_text (b_tenant_id b) \<longleftrightarrow> b_tenant_id b = None \<or> b_tenant_id b = Some [])
   \<and> (\<not> truthy (b_amount b) \<longleftrightarrow> b_amount b \<in> {Undefined, Null, Boolean False, Num 0, Str []})
   \<and> (truthy_text (b_tenant_id b) \<and> b_amount b = Num a \<and> a \<noteq> 0
        \<longrightarrow> status_of (fst (record_payment sd e d b)) \<noteq> 400)
   \<and> (\<forall>row nm. fst (record_payment sd e d b) = Success 201 (row, nm) \<longrightarrow>
          payment_date row = (case b_payment_date b of None \<Rightarrow> today e | Some x \<Rightarrow> x)
        \<and> payment_method row = (case b_payment_method b of None \<Rightarrow> Cash | Some m \<Rightarrow> m))"
proof (intro conjI)
  show "status_of (fst (record_payment sd e d b)) = 400
      \<longleftrightarrow> \<not> truthy_text (b_tenant_id b) \<or> \<not> truthy (b_amount b)"
    by (auto simp: record_payment_def Let_def split: option.splits)
  show "\<not> truthy_text (b_tenant_id b) \<longleftrightarrow> b_tenant_id b = None \<or> b_tenant_id b = Some []"
    by (cases "b_tenant_id b") auto
  show "\<not> truthy (b_amount b) \<longleftrightarrow> b_amount b \<in> {Undefined, Null, Boolean False, Num 0, Str []}"
    by (cases "b_amount b") auto
  show "truthy_text (b_tenant_id b) \<and> b_amount b = Num a \<and> a \<noteq> 0
        \<longrightarrow> status_of (fst (record_payment sd e d b)) \<noteq> 400"
    by (auto simp: record_payment_def Let_def split: option.splits)
  show "\<forall>row nm. fst (record_payment sd e d b) = Success 201 (row, nm) \<longrightarrow>
          payment_date row = (case b_payment_date b of None \<Rightarrow> today e | Some x \<Rightarrow> x)
        \<and> payment_method row = (case b_payment_method b of None \<Rightarrow> Cash | Some m \<Rightarrow> m)"
    by (auto simp: record_payment_def Let_def split: option.splits if_splits)
qed

theorem record_payment_validation_witness:
  "truthy_text (b_tenant_id sample_body) \<and> b_amount sample_body = Num 50000 \<and> (50000::rat) \<noteq> 0
   \<and> status_of (fst (record_payment no_strings sample_env seed_db sample_body)) = 201
   \<and> payment_date (fst (case fst (record_payment no_strings sample_env seed_db sample_body) of
                           Success c x \<Rightarrow> x)) = 20758
   \<and> payment_method (fst (case fst (record_payment no_strings sample_env seed_db sample_body) of
                           Success c x \<Rightarrow> x)) = Cash
   \<and> status_of (fst (record_payment no_strings sample_env seed_db (sample_body\<lparr>b_amount := Num 0\<rparr>))) = 400"
proof -
  have r: "\<exists>row nm. fst (record_payment no_strings sample_env seed_db sample_body) = Success 201 (row, nm)"
    by (simp add: record_payment_def sample_body_def sample_env_def seed_db_def seed_tenant_def
        seed_payment_def find_tenant_def update_tenants_def decimal_15_2_def round_half_away_def
        Let_def)
  then obtain row nm where
    s: "fst (record_payment no_strings sample_env seed_db sample_body) = Success 201 (row, nm)"
    by blast
  have h: "truthy_text (b_tenant_id sample_body)" "b_amount sample_body = Num 50000"
    "b_payment_date sample_body = None" "b_payment_method sample_body = None"
    "today sample_env = 20758"
    by (simp_all add: sample_body_def sample_env_def)
  show ?thesis
    using s h
      record_payment_validation [of no_strings sample_env seed_db sample_body 50000]
      record_payment_validation [of no_strings sample_env seed_db "sample_body\<lparr>b_amount := Num 0\<rparr>" 0]
    by simp
qed

subsection \<open>The sign of the stored balance\<close>

text \<open>
  C5, as stated, fails: from the seeded tenant, whose \<^verbatim>\<open>amount_paid\<close> is 150000, the
  payment-only patch with -5 stores -5, and a recorded payment of -200000 leaves -50000.
\<close>

theorem negative_balance_counterexample:
  "balances_nonneg seed_db
   \<and> \<not> balances_nonneg (run no_strings seed_db [PatchPayment ''t-002'' (Num (- 5))])
   \<and> \<not> balances_nonneg (run no_strings seed_db
          [RecordPayment sample_env (sample_body\<lparr>b_amount := Num (- 200000)\<rparr>)])"
  by (simp add: balances_nonneg_def run_def patch_payment_def bind_decimal_def or_zero_def
      update_tenants_def find_tenant_def record_payment_def sample_body_def sample_env_def
      decimal_15_2_def round_half_away_def Let_def seed_db_def seed_tenant_def seed_payment_def)

lemma balances_nonneg_iff: "balances_nonneg d \<longleftrightarrow> (\<forall>t \<in> set (tenants d). 0 \<le> amount_paid t)"
  by (simp add: balances_nonneg_def list_all_iff)

lemma balances_update:
  assumes "balances_nonneg d" and "\<And>t. 0 \<le> amount_paid t \<Longrightarrow> 0 \<le> amount_paid (f t)"
  shows "balances_nonneg (update_tenants i f d)"
  using assms by (auto simp: balances_nonneg_iff update_tenants_def)

lemma bind_decimal_nonneg:
  assumes "supplied_nonneg sd v" and "bind_decimal sd (or_zero v) = Some a"
  shows "0 \<le> a"
proof -
  obtain r where r: "to_decimal sd (or_zero v) = Some r" and a: "decimal_15_2 r = Some a"
    using assms(2) by (auto simp: bind_decimal_def split: option.splits)
  have "0 \<le> r" using assms(1) r by (simp add: supplied_nonneg_def)
  then show ?thesis using a by (rule decimal_nonneg)
qed

lemma amount_column_nonneg:
  assumes "amount_column far s = Some a"
  shows "0 \<le> a"
proof (cases "literal_length (filter (\<lambda>c. is_digit c \<or> c = CHR ''.'') s) \<le> 15")
  case True
  have "0 \<le> parse_amount s"
    by (simp add: parse_amount_def parse_float_def Let_def split: option.splits)
  moreover have "decimal_15_2 (parse_amount s) = Some a"
    using assms True by (simp add: amount_column_def Let_def)
  ultimately show ?thesis by (rule decimal_nonneg)
next
  case False
  then show ?thesis using assms by (auto simp: amount_column_def Let_def)
qed

lemma import_loop_nonneg:
  "balances_nonneg d \<Longrightarrow> balances_nonneg (snd (import_loop lower far uid ids k rows d acc))"
proof (induction rows arbitrary: d k acc)
  case Nil
  then show ?case by simp
next
  case (Cons row rows)
  have ext: "balances_nonneg (d\<lparr>tenants := tenants d @ [import_row lower uid (ids k) (next_sn d) row rent paid],
                                 next_sn := Suc (next_sn d)\<rparr>)"
    if "amount_column far (g lower row [''amountpaid'', ''paid'']) = Some paid" for rent paid
    using Cons.prems amount_column_nonneg [OF that]
    by (simp add: balances_nonneg_iff import_row_def)
  show ?case
  proof (cases "g lower row [''nameoftenant'', ''tenant'', ''name''] = []")
    case True
    then show ?thesis using Cons by (simp del: g.simps)
  next
    case False
    show ?thesis
    proof (cases "amount_column far (g lower row [''rentperannum'', ''rent''])")
      case None
      then show ?thesis using False Cons.prems by (simp del: g.simps)
    next
      case rent: (Some rent)
      show ?thesis
      proof (cases "amount_column far (g lower row [''amountpaid'', ''paid''])")
        case None
        then show ?thesis using False rent Cons.prems by (simp del: g.simps)
      next
        case paid: (Some paid)
        show ?thesis
          using False rent paid Cons.prems Cons.IH [OF ext [OF paid]]
          by (simp add: Let_def del: g.simps)
      qed
    qed
  qed
qed

lemma step_nonneg:
  assumes "balances_nonneg d" and "op_nonneg sd op"
  shows "balances_nonneg (step sd d op)"
proof (cases op)
  case (Create uid i b)
  then show ?thesis using assms bind_decimal_nonneg [of sd "b_amount_paid b"]
    by (auto simp: create_tenant_def balances_nonneg_iff Let_def split: option.splits)
next
  case (Update i b)
  then show ?thesis using assms bind_decimal_nonneg [of sd "b_amount_paid b"]
    by (auto simp: update_tenant_def Let_def intro!: balances_update split: option.splits)
next
  case (PatchPayment i v)
  then show ?thesis using assms bind_decimal_nonneg [of sd v]
    by (auto simp: patch_payment_def Let_def intro!: balances_update split: option.splits)
next
  case (PatchQuit td i v)
  then show ?thesis using assms
    by (auto simp: patch_quit_def Let_def intro!: balances_update)
next
  case (DeleteTenant i)
  then show ?thesis using assms
    by (auto simp: delete_tenant_def balances_nonneg_iff)
next
  case (Import lower far uid ids upload)
  show ?thesis
  proof (cases upload)
    case None
    then show ?thesis using assms Import by (simp add: import_tenants_def)
  next
    case (Some records)
    have "balances_nonneg (snd (import_loop lower far uid ids 0 records d []))"
      using assms(1) by (rule import_loop_nonneg)
    then show ?thesis using Import Some
      by (cases "import_loop lower far uid ids 0 records d []")
         (auto simp: import_tenants_def split: sum.splits)
  qed
next
  case (RecordPayment e b)
  have ins: "balances_nonneg (d\<lparr>payments := ps\<rparr>)" for ps
    using assms(1) by (simp add: balances_nonneg_iff)
  have upd: "balances_nonneg
               (update_tenants j (\<lambda>t. t\<lparr>amount_paid := the (decimal_15_2 (amount_paid t + a))\<rparr>)
                  (d\<lparr>payments := ps\<rparr>))"
    if a: "0 \<le> a"
      and ok: "\<not> list_ex (\<lambda>t. t_id t = j \<and> decimal_15_2 (amount_paid t + a) = None) (tenants d)"
    for j a ps
    unfolding balances_nonneg_iff update_tenants_def
  proof
    fix x assume "x \<in> set (tenants (d\<lparr>payments := ps\<rparr>
            \<lparr>tenants := map (\<lambda>t. if t_id t = j
                                  then t\<lparr>amount_paid := the (decimal_15_2 (amount_paid t + a))\<rparr>
                                  else t) (tenants (d\<lparr>payments := ps\<rparr>))\<rparr>))"
    then obtain t where t: "t \<in> set (tenants d)"
      and x: "x = (if t_id t = j then t\<lparr>amount_paid := the (decimal_15_2 (amount_paid t + a))\<rparr> else t)"
      by auto
    have n: "0 \<le> amount_paid t" using assms(1) t by (simp add: balances_nonneg_iff)
    show "0 \<le> amount_paid x"
    proof (cases "t_id t = j")
      case True
      then obtain r where r: "decimal_15_2 (amount_paid t + a) = Some r"
        using ok t by (auto simp: list_ex_iff)
      have "0 \<le> r" using decimal_nonneg [OF _ r] n a by simp
      then show ?thesis using x True r by simp
    next
      case False
      then show ?thesis using x n by simp
    qed
  qed
  show ?thesis
  proof (cases "\<not> truthy_text (b_tenant_id b) \<or> \<not> truthy (b_amount b)")
    case True
    then show ?thesis using assms(1) RecordPayment by (auto simp: record_payment_def)
  next
    case False
    then have f: "truthy_text (b_tenant_id b)" "truthy (b_amount b)" by auto
    show ?thesis
    proof (cases "to_decimal sd (b_amount b)")
      case None
      then show ?thesis using assms(1) RecordPayment f by (simp add: record_payment_def Let_def)
    next
      case (Some a)
      then have a: "0 \<le> a"
        using assms(2) RecordPayment f by (simp add: supplied_nonneg_def or_zero_def)
      show ?thesis
        using assms(1) RecordPayment f Some ins upd [OF a]
        by (auto simp: record_payment_def Let_def split: option.splits)
    qed
  qed
next
  case (DeletePayment i)
  have "balances_nonneg (update_tenants j (\<lambda>t. t\<lparr>amount_paid := max 0 (amount_paid t - x)\<rparr>) d)" for j x
    using assms(1) by (auto intro!: balances_update)
  then show ?thesis using DeletePayment
    by (auto simp: delete_payment_def Let_def balances_nonneg_iff update_tenants_def split: option.splits)
qed

text \<open>
  C5, amended. Starting from balances that are not negative, after every sequence of
  requests (tenant create, full update, payment-only patch, quit toggle, tenant delete,
  import, record payment, delete payment) in which no request supplies a negative
  \<^verbatim>\<open>amount_paid\<close> or a negative payment amount, no tenant's \<^verbatim>\<open>amount_paid\<close> is
  negative; deleting a payment never needs the proviso, as it floors the balance at
  zero.
\<close>

theorem balances_stay_nonneg:
  assumes "balances_nonneg d" and "list_all (op_nonneg sd) ops"
  shows "balances_nonneg (run sd d ops)"
  using assms unfolding run_def
proof (induction ops arbitrary: d)
  case Nil
  then show ?case by simp
next
  case (Cons op ops)
  then show ?case by (simp add: step_nonneg)
qed

theorem balances_stay_nonneg_witness:
  "balances_nonneg seed_db
   \<and> list_all (op_nonneg no_strings)
        [PatchPayment ''t-002'' (Num 100000), RecordPayment sample_env sample_body,
         DeletePayment ''p-002'', DeletePayment ''p-100'']
   \<and> balances_nonneg (run no_strings seed_db
        [PatchPayment ''t-002'' (Num 100000), RecordPayment sample_env sample_body,
         DeletePayment ''p-002'', DeletePayment ''p-100''])"
proof -
  have h1: "balances_nonneg seed_db"
    by (simp add: balances_nonneg_def seed_db_def seed_tenant_def)
  have h2: "list_all (op_nonneg no_strings)
        [PatchPayment ''t-002'' (Num 100000), RecordPayment sample_env sample_body,
         DeletePayment ''p-002'', DeletePayment ''p-100'']"
    by (simp add: supplied_nonneg_def or_zero_def sample_body_def)
  show ?thesis using h1 h2 balances_stay_nonneg [OF h1 h2] by simp
qed

subsection \<open>The import of a CSV file\<close>

lemma ws_prefix_space:
  assumes "w \<in> set white_space"
  shows "ws_prefix (w @ s) = length w \<and> w \<noteq> []"
  using assms unfolding white_space_def set_simps insert_iff empty_iff
  by (elim disjE) (simp_all add: ws_prefix_def white_space_def)

lemma strip_space:
  assumes "w \<in> set white_space"
  shows "strip_space_underscore (w @ s) = strip_space_underscore s"
  using ws_prefix_space [OF assms, of s]
  by (subst strip_space_underscore.simps) simp

lemma ascii_pair: "\<not> digit7 c \<Longrightarrow> [c, x] \<notin> set white_space"
  unfolding white_space_def by auto

lemma ascii_triple: "\<not> digit7 c \<Longrightarrow> [c, x, y] \<notin> set white_space"
  unfolding white_space_def by auto

lemma take_2_cases: "take 2 (c # r) = [c] \<or> (\<exists>x. take 2 (c # r) = [c, x])"
  by (cases r) simp_all

lemma take_3_cases:
  "take 3 (c # r) = [c] \<or> (\<exists>x. take 3 (c # r) = [c, x]) \<or> (\<exists>x y. take 3 (c # r) = [c, x, y])"
proof (cases r)
  case Nil
  then show ?thesis by simp
next
  case (Cons x xs)
  then show ?thesis by (cases xs) simp_all
qed

lemma ws_prefix_ascii:
  assumes "is_ascii c" and "[c] \<notin> set white_space"
  shows "ws_prefix (c # r) = 0"
proof -
  have a: "\<not> digit7 c" using assms(1) by (simp add: is_ascii_def)
  have one: "take 1 (c # r) \<notin> set white_space" using assms(2) by simp
  have two: "take 2 (c # r) \<notin> set white_space"
    using take_2_cases [of c r] assms(2) ascii_pair [OF a] by metis
  have three: "take 3 (c # r) \<notin> set white_space"
    using take_3_cases [of c r] assms(2) ascii_pair [OF a] ascii_triple [OF a] by metis
  show ?thesis unfolding ws_prefix_def using one two three by simp
qed

lemma strip_ascii:
  assumes "is_ascii c" and "[c] \<notin> set white_space"
  shows "strip_space_underscore (c # s)
         = (if c = CHR ''_'' then strip_space_underscore s else c # strip_space_underscore s)"
  using ws_prefix_ascii [OF assms, of s]
  by (subst strip_space_underscore.simps) simp

lemma strip_Nil: "strip_space_underscore [] = []"
  by (subst strip_space_underscore.simps) simp

lemma to_lower_cases: "to_lower c = c \<or> to_lower c \<in> set ''abcdefghijklmnopqrstuvwxyz''"
proof (cases "map_of (zip ''ABCDEFGHIJKLMNOPQRSTUVWXYZ'' ''abcdefghijklmnopqrstuvwxyz'') c")
  case None
  then show ?thesis by (simp add: to_lower_def)
next
  case (Some l)
  then have "(c, l) \<in> set (zip ''ABCDEFGHIJKLMNOPQRSTUVWXYZ'' ''abcdefghijklmnopqrstuvwxyz'')"
    by (rule map_of_SomeD)
  then have "l \<in> set ''abcdefghijklmnopqrstuvwxyz''" by (rule set_zip_rightD)
  then show ?thesis using Some by (simp add: to_lower_def)
qed

lemma letter_ascii: "l \<in> set ''abcdefghijklmnopqrstuvwxyz'' \<Longrightarrow> is_ascii l \<and> [l] \<notin> set white_space \<and> l \<noteq> CHR ''_''"
  unfolding is_ascii_def white_space_def by auto

lemma to_lower_upper: "to_lower c \<noteq> c \<Longrightarrow> c \<in> set ''ABCDEFGHIJKLMNOPQRSTUVWXYZ''"
proof -
  assume "to_lower c \<noteq> c"
  then obtain l where "map_of (zip ''ABCDEFGHIJKLMNOPQRSTUVWXYZ'' ''abcdefghijklmnopqrstuvwxyz'') c = Some l"
    by (cases "map_of (zip ''ABCDEFGHIJKLMNOPQRSTUVWXYZ'' ''abcdefghijklmnopqrstuvwxyz'') c")
       (auto simp: to_lower_def)
  then have "(c, l) \<in> set (zip ''ABCDEFGHIJKLMNOPQRSTUVWXYZ'' ''abcdefghijklmnopqrstuvwxyz'')"
    by (rule map_of_SomeD)
  then show ?thesis by (rule set_zip_leftD)
qed

lemma upper_no_space: "c \<in> set ''ABCDEFGHIJKLMNOPQRSTUVWXYZ'' \<Longrightarrow> [c] \<notin> set white_space \<and> c \<noteq> CHR ''_''"
  unfolding white_space_def by auto

lemma to_lower_space:
  assumes "w \<in> set white_space"
  shows "map to_lower w = w"
  using assms unfolding white_space_def set_simps insert_iff empty_iff
  by (elim disjE) (simp_all add: to_lower_def)

lemma piece_step:
  assumes "plain_piece w"
  shows "strip_space_underscore (map to_lower w @ t) = normal_piece w @ strip_space_underscore t"
proof (cases "w \<in> set white_space")
  case True
  then show ?thesis by (simp add: to_lower_space strip_space normal_piece_def)
next
  case False
  then obtain c where w: "w = [c]" and a: "is_ascii c" using assms by (auto simp: plain_piece_def)
  have n: "[c] \<notin> set white_space" using False w by simp
  show ?thesis
  proof (cases "to_lower c = c")
    case True
    then show ?thesis using w n strip_ascii [OF a n, of t] by (simp add: normal_piece_def)
  next
    case False
    then have l: "to_lower c \<in> set ''abcdefghijklmnopqrstuvwxyz''"
      using to_lower_cases [of c] by blast
    have u: "[c] \<notin> set white_space \<and> c \<noteq> CHR ''_''"
      using to_lower_upper [OF False] by (rule upper_no_space)
    have la: "is_ascii (to_lower c)" "[to_lower c] \<notin> set white_space" "to_lower c \<noteq> CHR ''_''"
      using letter_ascii [OF l] by blast+
    show ?thesis
      using w u la(3) strip_ascii [OF la(1) la(2), of t] by (simp add: normal_piece_def)
  qed
qed

lemma strip_pieces:
  assumes "list_all plain_piece ws"
  shows "strip_space_underscore (map to_lower (concat ws)) = concat (map normal_piece ws)"
  using assms
proof (induction ws)
  case Nil
  then show ?case by (simp add: strip_Nil)
next
  case (Cons w ws)
  then have "plain_piece w" and "list_all plain_piece ws" by simp_all
  then show ?case using Cons.IH piece_step [of w "map to_lower (concat ws)"] by simp
qed

lemma normalize_plain:
  assumes "lowers_plain lower" and "list_all plain_piece ws"
  shows "normalize lower (concat ws) = concat (map normal_piece ws)"
proof -
  have "lower (concat ws) = map to_lower (concat ws)"
    using assms by (simp add: lowers_plain_def)
  then show ?thesis using strip_pieces [OF assms(2)] by (simp add: normalize_def)
qed

lemma normalize_ascii:
  assumes "lowers_plain lower" and "list_all is_ascii s"
  shows "normalize lower s
         = concat (map (\<lambda>c. if [c] \<in> set white_space \<or> c = CHR ''_'' then [] else [to_lower c]) s)"
proof -
  have p: "list_all plain_piece (map (\<lambda>c. [c]) s)"
    using assms(2) by (simp add: list_all_iff plain_piece_def)
  have c: "concat (map (\<lambda>c. [c]) s) = s" by (induction s) simp_all
  have e: "normal_piece [x] = (if [x] \<in> set white_space \<or> x = CHR ''_'' then [] else [to_lower x])"
    for x by (simp add: normal_piece_def)
  have n: "normalize lower (concat (map (\<lambda>c. [c]) s)) = concat (map normal_piece (map (\<lambda>c. [c]) s))"
    using assms(1) p by (rule normalize_plain)
  have m: "map normal_piece (map (\<lambda>c. [c]) s)
      = map (\<lambda>c. if [c] \<in> set white_space \<or> c = CHR ''_'' then [] else [to_lower c]) s"
    by (induction s) (simp_all only: list.map e)
  have "normalize lower s = concat (map normal_piece (map (\<lambda>c. [c]) s))"
    using n unfolding c .
  then show ?thesis unfolding m .
qed

lemma lower_Nil:
  assumes "lowers_plain lower"
  shows "lower [] = []"
proof -
  have "list_all plain_piece [] \<longrightarrow> lower (concat []) = map to_lower (concat [])"
    using assms unfolding lowers_plain_def by (rule spec)
  then show ?thesis by simp
qed

lemma normalize_Nil: "lowers_plain lower \<Longrightarrow> normalize lower [] = []"
  by (simp add: normalize_def lower_Nil strip_Nil)

lemma find_fst_pairs:
  "find P (map fst row) = map_option fst (find (\<lambda>(h, v). P h) row)"
  by (induction row) auto

lemma map_of_first_match:
  "find (\<lambda>(h, v). P h) row = Some (f, v) \<Longrightarrow> map_of row f = Some v"
proof (induction row)
  case Nil
  then show ?case by simp
next
  case (Cons hv row)
  obtain h v' where hv: "hv = (h, v')" by (cases hv)
  show ?case
  proof (cases "P h")
    case True
    then show ?thesis using Cons.prems hv by simp
  next
    case False
    then have r: "find (\<lambda>(h, v). P h) row = Some (f, v)" using Cons.prems hv by simp
    then have "P f" by (auto simp: find_Some_iff)
    then have "h \<noteq> f" using False by auto
    then show ?thesis using Cons.IH [OF r] hv by simp
  qed
qed

lemma g_step:
  assumes "lowers_plain lower" and "normalize lower k \<noteq> []"
  shows "g lower row (k # ks)
         = (if header_value lower row k \<noteq> [] then header_value lower row k else g lower row ks)"
proof (cases "find (\<lambda>(h, v). normalize lower h = normalize lower k) row")
  case None
  then show ?thesis by (simp add: find_fst_pairs header_value_def)
next
  case (Some hv)
  obtain f v where hv: "hv = (f, v)" by (cases hv)
  have m: "map_of row f = Some v"
    using map_of_first_match [of "\<lambda>h. normalize lower h = normalize lower k" row f v] Some hv by simp
  have "normalize lower f = normalize lower k" using Some hv by (auto simp: find_Some_iff)
  then have "f \<noteq> []" using assms normalize_Nil by auto
  then show ?thesis using Some hv m by (simp add: find_fst_pairs header_value_def)
qed

lemma g_resolves:
  assumes "lowers_plain lower" and "\<forall>k \<in> set keys. normalize lower k \<noteq> []"
  shows "g lower row keys = resolve_field lower row keys"
  using assms(2)
proof (induction keys)
  case Nil
  then show ?case by (simp add: resolve_field_def)
next
  case (Cons k ks)
  then have ih: "g lower row ks = resolve_field lower row ks" by simp
  have "g lower row (k # ks)
        = (if header_value lower row k \<noteq> [] then header_value lower row k else g lower row ks)"
    using assms(1) Cons.prems by (intro g_step) simp_all
  then show ?case using ih by (simp add: resolve_field_def del: g.simps)
qed

lemma parse_amount_strips:
  "parse_amount s = parse_amount (filter (\<lambda>c. is_digit c \<or> c = CHR ''.'') s)"
  by (simp add: parse_amount_def)

lemma takeWhile_Nil_none: "\<forall>c \<in> set s. \<not> P c \<Longrightarrow> takeWhile P s = []"
  by (cases s) auto

lemma parse_float_no_digit:
  assumes "\<forall>c \<in> set s. \<not> is_digit c"
  shows "parse_float s = None"
proof -
  have ip: "takeWhile is_digit s = []" using assms by (rule takeWhile_Nil_none)
  have rest: "dropWhile is_digit s = s" using assms by (cases s) auto
  have "takeWhile is_digit r = []" if "s = c # r" for c r
    using assms that by (intro takeWhile_Nil_none) auto
  then show ?thesis using ip rest
    by (auto simp: parse_float_def Let_def split: list.splits)
qed

lemma parse_amount_no_digit:
  assumes "\<forall>c \<in> set s. \<not> is_digit c"
  shows "parse_amount s = 0"
proof -
  have "\<forall>c \<in> set (filter (\<lambda>c. is_digit c \<or> c = CHR ''.'') s). \<not> is_digit c"
    using assms by auto
  then show ?thesis by (simp add: parse_amount_def parse_float_no_digit)
qed

lemma parse_float_digits:
  assumes "\<forall>c \<in> set s. is_digit c" and "s \<noteq> []"
  shows "parse_float s = Some (of_nat (digits_value 10 digit_val s))"
proof -
  have ip: "takeWhile is_digit s = s" using assms by (simp add: takeWhile_eq_all_conv)
  have rest: "dropWhile is_digit s = []" using assms by simp
  show ?thesis unfolding parse_float_def Let_def ip rest using assms(2)
    by (simp add: digits_value_def)
qed

lemma parse_amount_digits:
  assumes "\<forall>c \<in> set s. c \<noteq> CHR ''.''" and "\<exists>c \<in> set s. is_digit c"
  shows "parse_amount s = of_nat (digits_value 10 digit_val (filter is_digit s))"
proof -
  have e: "filter (\<lambda>c. is_digit c \<or> c = CHR ''.'') s = filter is_digit s"
    using assms(1) by (intro filter_cong) auto
  have "filter is_digit s \<noteq> []" using assms(2) by (simp add: filter_empty_conv)
  then show ?thesis
    by (simp add: parse_amount_def e parse_float_digits)
qed

lemma parse_float_point:
  assumes "\<forall>c \<in> set ip. is_digit c" and "\<forall>c \<in> set fp. is_digit c"
    and "rest = [] \<or> hd rest = CHR ''.''"
  shows "parse_float (ip @ CHR ''.'' # fp @ rest)
         = (if ip = [] \<and> fp = [] then None
            else Some (of_nat (digits_value 10 digit_val ip)
                       + of_nat (digits_value 10 digit_val fp) / 10 ^ length fp))"
proof -
  have nd: "\<not> is_digit CHR ''.''" by (simp add: is_digit_def)
  have a: "takeWhile is_digit (ip @ CHR ''.'' # fp @ rest) = ip"
    using assms(1) nd by (simp add: takeWhile_tail)
  have b: "dropWhile is_digit (ip @ CHR ''.'' # fp @ rest) = CHR ''.'' # fp @ rest"
    using assms(1) nd by (simp add: dropWhile_append3)
  have c: "takeWhile is_digit (fp @ rest) = fp"
  proof (cases rest)
    case Nil
    then show ?thesis using assms(2) by (simp add: takeWhile_eq_all_conv)
  next
    case (Cons x xs)
    then have "\<not> is_digit x" using assms(3) nd by simp
    then show ?thesis using assms(2) Cons by (simp add: takeWhile_tail)
  qed
  show ?thesis unfolding parse_float_def Let_def a b by (simp add: c)
qed

lemma amount_column_short:
  assumes "literal_length (filter (\<lambda>c. is_digit c \<or> c = CHR ''.'') s) \<le> 15"
  shows "amount_column far s = decimal_15_2 (parse_amount s)"
  using assms by (simp add: amount_column_def Let_def)

lemma sample_headers:
  assumes "lowers_plain lower"
  shows "normalize lower ''Name of Tenant'' = ''nameoftenant''"
    and "normalize lower ''Rent Per Annum'' = ''rentperannum''"
    and "normalize lower ''Phone'' = ''phone''"
  by (simp_all add: normalize_ascii [OF assms] is_ascii_def white_space_def to_lower_def)

lemma synonyms_normal:
  assumes "lowers_plain lower"
  shows "normalize lower ''nameoftenant'' = ''nameoftenant''" "normalize lower ''tenant'' = ''tenant''"
      "normalize lower ''name'' = ''name''" "normalize lower ''typeofaccommodation'' = ''typeofaccommodation''"
      "normalize lower ''type'' = ''type''" "normalize lower ''accommodation'' = ''accommodation''"
      "normalize lower ''property'' = ''property''" "normalize lower ''address'' = ''address''"
      "normalize lower ''block'' = ''block''" "normalize lower ''period'' = ''period''"
      "normalize lower ''rentperannum'' = ''rentperannum''" "normalize lower ''rent'' = ''rent''"
      "normalize lower ''amountpaid'' = ''amountpaid''" "normalize lower ''paid'' = ''paid''"
      "normalize lower ''phone'' = ''phone''" "normalize lower ''mobile'' = ''mobile''"
      "normalize lower ''email'' = ''email''" "normalize lower ''notes'' = ''notes''"
      "normalize lower ''remarks'' = ''remarks''" "normalize lower ''quitnotice'' = ''quitnotice''"
      "normalize lower ''quit'' = ''quit''"
  by (simp_all add: normalize_ascii [OF assms] is_ascii_def white_space_def to_lower_def)

lemma marked_header:
  assumes "lowers_plain lower"
  shows "normalize lower [CHR 0xEF, CHR 0xBB, CHR 0xBF, CHR ''N'', CHR ''a'', CHR ''m'', CHR ''e'',
                          CHR 0xC2, CHR 0xA0, CHR ''o'', CHR ''f'', CHR '' '', CHR ''T'', CHR ''e'',
                          CHR ''n'', CHR ''a'', CHR ''n'', CHR ''t'']
         = ''nameoftenant''"
proof -
  let ?ws = "[[CHR 0xEF, CHR 0xBB, CHR 0xBF], ''N'', ''a'', ''m'', ''e'', [CHR 0xC2, CHR 0xA0],
              ''o'', ''f'', '' '', ''T'', ''e'', ''n'', ''a'', ''n'', ''t'']"
  have c: "[CHR 0xEF, CHR 0xBB, CHR 0xBF, CHR ''N'', CHR ''a'', CHR ''m'', CHR ''e'',
            CHR 0xC2, CHR 0xA0, CHR ''o'', CHR ''f'', CHR '' '', CHR ''T'', CHR ''e'',
            CHR ''n'', CHR ''a'', CHR ''n'', CHR ''t''] = concat ?ws"
    by simp
  have p: "list_all plain_piece ?ws"
    by (simp add: plain_piece_def white_space_def is_ascii_def)
  show ?thesis
    unfolding c normalize_plain [OF assms p]
    by (simp add: normal_piece_def white_space_def to_lower_def)
qed

lemma sample_amounts:
  "amount_column far [CHR 0xE2, CHR 0x82, CHR 0xA6, CHR ''1'', CHR ''5'', CHR ''0'',
                      CHR '','', CHR ''0'', CHR ''0'', CHR ''0''] = Some 150000"
  "amount_column far [] = Some 0"
  by (simp_all add: amount_column_def literal_length_def parse_amount_def parse_float_def
      is_digit_def digits_value_def digit_val_def decimal_15_2_def round_half_away_def Let_def)

text \<open>
  C8. With \<^verbatim>\<open>toLowerCase\<close> as it is on ASCII and white-space characters. Normalising a
  header made of such characters lower-cases it and removes its white space (the white
  space of JavaScript, the no-break space and the byte order mark among it) and its
  underscores. A field is resolved by comparing the normalised headers with the synonyms
  of the field in their order, and the first synonym whose header holds a non-empty
  value gives the value. A row whose name resolves to nothing is skipped and the loop
  goes on with the rows after it. A row with a name, amounts that fit their columns and a
  fresh identifier is stored with the resolved value in every text column, the two
  amounts, the quit notice set when its text lower-cased is \<^verbatim>\<open>yes\<close>, no lease dates,
  no WhatsApp number, and the importing user; the loop goes on after it. A numeric field
  is read from what is left of its text when everything but digits and points is
  removed: a text with digits and no point gives the number its digits spell, a text
  whose remainder is digits, a point and digits gives that decimal number, and a text
  without digits gives zero; a number of at most 15 digits is stored as the column
  rounds it. A file with a row that has no name and the row
  \<^verbatim>\<open>Name of Tenant = Jane Doe, Rent Per Annum = (naira sign)150,000\<close> imports one
  tenant, named Jane Doe, with rent 150000 and every other field empty, zero or null.
\<close>

theorem import_resolves_headers:
  assumes "lowers_plain lower"
  shows
  "(list_all plain_piece ws \<longrightarrow> normalize lower (concat ws) = concat (map normal_piece ws))
   \<and> ((\<forall>k \<in> set keys. normalize lower k \<noteq> []) \<longrightarrow> g lower row keys = resolve_field lower row keys)
   \<and> (g lower row [''nameoftenant'', ''tenant'', ''name''] = [] \<longrightarrow>
        import_loop lower far uid ids k (row # rows) d acc = import_loop lower far uid ids k rows d acc)
   \<and> (g lower row [''nameoftenant'', ''tenant'', ''name''] \<noteq> []
        \<and> amount_column far (g lower row [''rentperannum'', ''rent'']) = Some rent
        \<and> amount_column far (g lower row [''amountpaid'', ''paid'']) = Some paid
        \<and> ids k \<notin> t_id ` set (tenants d) \<longrightarrow>
        import_loop lower far uid ids k (row # rows) d acc
        = (let r = \<lparr> t_id = ids k, sn = next_sn d,
                    tenant_name = g lower row [''nameoftenant'', ''tenant'', ''name''],
                    accommodation_type = Some (g lower row [''typeofaccommodation'', ''type'', ''accommodation'']),
                    property_address = Some (g lower row [''property'', ''address'', ''block'']),
                    period = Some (g lower row [''period'']),
                    lease_start = None, lease_end = None,
                    rent_per_annum = rent, amount_paid = paid,
                    phone = Some (g lower row [''phone'', ''mobile'']),
                    email = Some (g lower row [''email'']),
                    whatsapp = None,
                    t_notes = Some (g lower row [''notes'', ''remarks'']),
                    quit_notice = (lower (g lower row [''quitnotice'', ''quit'']) = ''yes''),
                    quit_notice_date = None, created_by = Some uid \<rparr>
           in import_loop lower far uid ids (Suc k) rows
                (d\<lparr>tenants := tenants d @ [r], next_sn := Suc (next_sn d)\<rparr>) (acc @ [r])))
   \<and> amount_column far s = amount_column far (filter (\<lambda>c. is_digit c \<or> c = CHR ''.'') s)
   \<and> parse_amount s = parse_amount (filter (\<lambda>c. is_digit c \<or> c = CHR ''.'') s)
   \<and> (literal_length (filter (\<lambda>c. is_digit c \<or> c = CHR ''.'') s) \<le> 15 \<longrightarrow>
        amount_column far s = decimal_15_2 (parse_amount s))
   \<and> ((\<forall>c \<in> set s. c \<noteq> CHR ''.'') \<and> (\<exists>c \<in> set s. is_digit c) \<longrightarrow>
        parse_amount s = of_nat (digits_value 10 digit_val (filter is_digit s)))
   \<and> ((\<forall>c \<in> set ip. is_digit c) \<and> (\<forall>c \<in> set fp. is_digit c) \<and> (ip \<noteq> [] \<or> fp \<noteq> [])
        \<and> (rest = [] \<or> hd rest = CHR ''.'')
        \<and> filter (\<lambda>c. is_digit c \<or> c = CHR ''.'') s = ip @ CHR ''.'' # fp @ rest \<longrightarrow>
        parse_amount s = of_nat (digits_value 10 digit_val ip)
                         + of_nat (digits_value 10 digit_val fp) / 10 ^ length fp)
   \<and> ((\<forall>c \<in> set s. \<not> is_digit c) \<longrightarrow> parse_amount s = 0 \<and> amount_column far s = Some 0)
   \<and> import_tenants lower far ''admin-001'' sample_ids seed_db (Some [[(''Phone'', ''0800'')], sample_row])
       = (Success 200 (1,
            [\<lparr> t_id = ''t-100'', sn = 3, tenant_name = ''Jane Doe'',
               accommodation_type = Some [], property_address = Some [], period = Some [],
               lease_start = None, lease_end = None,
               rent_per_annum = 150000, amount_paid = 0,
               phone = Some [], email = Some [], whatsapp = None, t_notes = Some [],
               quit_notice = False, quit_notice_date = None, created_by = Some ''admin-001'' \<rparr>]),
          seed_db\<lparr>tenants := tenants seed_db @
            [\<lparr> t_id = ''t-100'', sn = 3, tenant_name = ''Jane Doe'',
               accommodation_type = Some [], property_address = Some [], period = Some [],
               lease_start = None, lease_end = None,
               rent_per_annum = 150000, amount_paid = 0,
               phone = Some [], email = Some [], whatsapp = None, t_notes = Some [],
               quit_notice = False, quit_notice_date = None, created_by = Some ''admin-001'' \<rparr>],
            next_sn := 4\<rparr>)
   \<and> g lower marked_row [''nameoftenant'', ''tenant'', ''name''] = ''Jane Doe''"
proof (intro conjI)
  show "(list_all plain_piece ws \<longrightarrow> normalize lower (concat ws) = concat (map normal_piece ws))"
    using normalize_plain [OF assms] by blast
  show "((\<forall>k \<in> set keys. normalize lower k \<noteq> []) \<longrightarrow> g lower row keys = resolve_field lower row keys)"
    using g_resolves [OF assms] by blast
  show "(g lower row [''nameoftenant'', ''tenant'', ''name''] = [] \<longrightarrow>
        import_loop lower far uid ids k (row # rows) d acc = import_loop lower far uid ids k rows d acc)"
    by (simp del: g.simps)
  show "(g lower row [''nameoftenant'', ''tenant'', ''name''] \<noteq> []
        \<and> amount_column far (g lower row [''rentperannum'', ''rent'']) = Some rent
        \<and> amount_column far (g lower row [''amountpaid'', ''paid'']) = Some paid
        \<and> ids k \<notin> t_id ` set (tenants d) \<longrightarrow>
        import_loop lower far uid ids k (row # rows) d acc
        = (let r = \<lparr> t_id = ids k, sn = next_sn d,
                    tenant_name = g lower row [''nameoftenant'', ''tenant'', ''name''],
                    accommodation_type = Some (g lower row [''typeofaccommodation'', ''type'', ''accommodation'']),
                    property_address = Some (g lower row [''property'', ''address'', ''block'']),
                    period = Some (g lower row [''period'']),
                    lease_start = None, lease_end = None,
                    rent_per_annum = rent, amount_paid = paid,
                    phone = Some (g lower row [''phone'', ''mobile'']),
                    email = Some (g lower row [''email'']),
                    whatsapp = None,
                    t_notes = Some (g lower row [''notes'', ''remarks'']),
                    quit_notice = (lower (g lower row [''quitnotice'', ''quit'']) = ''yes''),
                    quit_notice_date = None, created_by = Some uid \<rparr>
           in import_loop lower far uid ids (Suc k) rows
                (d\<lparr>tenants := tenants d @ [r], next_sn := Suc (next_sn d)\<rparr>) (acc @ [r])))"
    by (simp add: Let_def import_row_def del: g.simps)
  show "amount_column far s = amount_column far (filter (\<lambda>c. is_digit c \<or> c = CHR ''.'') s)"
    using parse_amount_strips [of s] by (simp add: amount_column_def Let_def)
  show "parse_amount s = parse_amount (filter (\<lambda>c. is_digit c \<or> c = CHR ''.'') s)"
    by (rule parse_amount_strips)
  show "(literal_length (filter (\<lambda>c. is_digit c \<or> c = CHR ''.'') s) \<le> 15 \<longrightarrow>
        amount_column far s = decimal_15_2 (parse_amount s))"
    using amount_column_short by blast
  show "((\<forall>c \<in> set s. c \<noteq> CHR ''.'') \<and> (\<exists>c \<in> set s. is_digit c) \<longrightarrow>
        parse_amount s = of_nat (digits_value 10 digit_val (filter is_digit s)))"
    using parse_amount_digits by blast
  show "((\<forall>c \<in> set ip. is_digit c) \<and> (\<forall>c \<in> set fp. is_digit c) \<and> (ip \<noteq> [] \<or> fp \<noteq> [])
        \<and> (rest = [] \<or> hd rest = CHR ''.'')
        \<and> filter (\<lambda>c. is_digit c \<or> c = CHR ''.'') s = ip @ CHR ''.'' # fp @ rest \<longrightarrow>
        parse_amount s = of_nat (digits_value 10 digit_val ip)
                         + of_nat (digits_value 10 digit_val fp) / 10 ^ length fp)"
  proof (intro impI, elim conjE)
    assume i: "\<forall>c \<in> set ip. is_digit c" and f: "\<forall>c \<in> set fp. is_digit c"
      and n: "ip \<noteq> [] \<or> fp \<noteq> []" and r: "rest = [] \<or> hd rest = CHR ''.''"
      and e: "filter (\<lambda>c. is_digit c \<or> c = CHR ''.'') s = ip @ CHR ''.'' # fp @ rest"
    have "parse_float (ip @ CHR ''.'' # fp @ rest)
          = Some (of_nat (digits_value 10 digit_val ip)
                  + of_nat (digits_value 10 digit_val fp) / 10 ^ length fp)"
      using parse_float_point [OF i f r] n by simp
    then show "parse_amount s = of_nat (digits_value 10 digit_val ip)
                         + of_nat (digits_value 10 digit_val fp) / 10 ^ length fp"
      by (simp add: parse_amount_def e)
  qed
  show "((\<forall>c \<in> set s. \<not> is_digit c) \<longrightarrow> parse_amount s = 0 \<and> amount_column far s = Some 0)"
  proof (intro impI conjI)
    assume nd: "\<forall>c \<in> set s. \<not> is_digit c"
    show z: "parse_amount s = 0" using nd by (rule parse_amount_no_digit)
    have t: "takeWhile is_digit (filter (\<lambda>c. is_digit c \<or> c = CHR ''.'') s) = []"
      using nd by (intro takeWhile_Nil_none) simp
    have "takeWhile is_digit u = []" if "dropWhile is_digit (filter (\<lambda>c. is_digit c \<or> c = CHR ''.'') s) = c # u" for c u
    proof (intro takeWhile_Nil_none ballI)
      fix x assume "x \<in> set u"
      then have "x \<in> set (dropWhile is_digit (filter (\<lambda>c. is_digit c \<or> c = CHR ''.'') s))" using that by simp
      then have "x \<in> set s" using set_dropWhileD by fastforce
      then show "\<not> is_digit x" using nd by simp
    qed
    then have "literal_length (filter (\<lambda>c. is_digit c \<or> c = CHR ''.'') s) = 0"
      using t by (auto simp: literal_length_def Let_def split: list.splits)
    then show "amount_column far s = Some 0"
      using z by (simp add: amount_column_def Let_def decimal_zero)
  qed
  show "import_tenants lower far ''admin-001'' sample_ids seed_db (Some [[(''Phone'', ''0800'')], sample_row])
       = (Success 200 (1,
            [\<lparr> t_id = ''t-100'', sn = 3, tenant_name = ''Jane Doe'',
               accommodation_type = Some [], property_address = Some [], period = Some [],
               lease_start = None, lease_end = None,
               rent_per_annum = 150000, amount_paid = 0,
               phone = Some [], email = Some [], whatsapp = None, t_notes = Some [],
               quit_notice = False, quit_notice_date = None, created_by = Some ''admin-001'' \<rparr>]),
          seed_db\<lparr>tenants := tenants seed_db @
            [\<lparr> t_id = ''t-100'', sn = 3, tenant_name = ''Jane Doe'',
               accommodation_type = Some [], property_address = Some [], period = Some [],
               lease_start = None, lease_end = None,
               rent_per_annum = 150000, amount_paid = 0,
               phone = Some [], email = Some [], whatsapp = None, t_notes = Some [],
               quit_notice = False, quit_notice_date = None, created_by = Some ''admin-001'' \<rparr>],
            next_sn := 4\<rparr>)"
  proof -
    note keys = sample_headers [OF assms]
    note syn = synonyms_normal [OF assms]
    have skip: "g lower [(''Phone'', ''0800'')] [''nameoftenant'', ''tenant'', ''name''] = []"
      by (simp add: keys syn)
    have name: "g lower sample_row [''nameoftenant'', ''tenant'', ''name''] = ''Jane Doe''"
      by (simp add: sample_row_def keys syn)
    have rent: "g lower sample_row [''rentperannum'', ''rent'']
                = [CHR 0xE2, CHR 0x82, CHR 0xA6, CHR ''1'', CHR ''5'', CHR ''0'',
                   CHR '','', CHR ''0'', CHR ''0'', CHR ''0'']"
      by (simp add: sample_row_def keys syn)
    have paid: "g lower sample_row [''amountpaid'', ''paid''] = []"
      by (simp add: sample_row_def keys syn)
    have row: "import_row lower ''admin-001'' ''t-100'' 3 sample_row 150000 0
       = \<lparr> t_id = ''t-100'', sn = 3, tenant_name = ''Jane Doe'',
               accommodation_type = Some [], property_address = Some [], period = Some [],
               lease_start = None, lease_end = None,
               rent_per_annum = 150000, amount_paid = 0,
               phone = Some [], email = Some [], whatsapp = None, t_notes = Some [],
               quit_notice = False, quit_notice_date = None, created_by = Some ''admin-001'' \<rparr>"
      by (simp add: import_row_def sample_row_def keys syn lower_Nil [OF assms])
    have fresh: "sample_ids 0 = ''t-100''" "''t-100'' \<notin> t_id ` set (tenants seed_db)"
      "next_sn seed_db = 3"
      by (simp_all add: sample_ids_def string_of_nat.simps seed_db_def seed_tenant_def)
    show ?thesis
      by (simp add: import_tenants_def skip name rent paid sample_amounts fresh row Let_def
          del: g.simps)
  qed
  show "g lower marked_row [''nameoftenant'', ''tenant'', ''name''] = ''Jane Doe''"
    by (simp add: marked_row_def marked_header [OF assms] synonyms_normal [OF assms])
qed


theorem import_resolves_headers_witness:
  "normalize ascii_lower
       [CHR 0xEF, CHR 0xBB, CHR 0xBF, CHR ''R'', CHR ''e'', CHR ''n'', CHR ''t'', CHR ''_'',
        CHR 0xC2, CHR 0xA0, CHR ''P'', CHR ''a'', CHR ''i'', CHR ''d''] = ''rentpaid''
   \<and> normalize ascii_lower ''rentperannum'' \<noteq> [] \<and> normalize ascii_lower ''rent'' \<noteq> []
   \<and> g ascii_lower sample_row [''rentperannum'', ''rent'']
       = resolve_field ascii_lower sample_row [''rentperannum'', ''rent'']
   \<and> g ascii_lower [(''Phone'', ''0800'')] [''nameoftenant'', ''tenant'', ''name''] = []
   \<and> import_loop ascii_lower no_far ''admin-001'' sample_ids 0 [[(''Phone'', ''0800'')], sample_row] seed_db []
       = import_loop ascii_lower no_far ''admin-001'' sample_ids 0 [sample_row] seed_db []
   \<and> import_loop ascii_lower no_far ''admin-001'' sample_ids 0 [sample_row] seed_db []
       = (Inr [\<lparr> t_id = ''t-100'', sn = 3, tenant_name = ''Jane Doe'',
               accommodation_type = Some [], property_address = Some [], period = Some [],
               lease_start = None, lease_end = None,
               rent_per_annum = 150000, amount_paid = 0,
               phone = Some [], email = Some [], whatsapp = None, t_notes = Some [],
               quit_notice = False, quit_notice_date = None, created_by = Some ''admin-001'' \<rparr>],
          seed_db\<lparr>tenants := tenants seed_db @
            [\<lparr> t_id = ''t-100'', sn = 3, tenant_name = ''Jane Doe'',
               accommodation_type = Some [], property_address = Some [], period = Some [],
               lease_start = None, lease_end = None,
               rent_per_annum = 150000, amount_paid = 0,
               phone = Some [], email = Some [], whatsapp = None, t_notes = Some [],
               quit_notice = False, quit_notice_date = None, created_by = Some ''admin-001'' \<rparr>],
            next_sn := 4\<rparr>)
   \<and> amount_column no_far ''12.345'' = Some (247 / 20)
   \<and> CHR ''.'' \<notin> set ''N150,000'' \<and> filter is_digit ''N150,000'' = ''150000''
   \<and> parse_amount ''N150,000'' = 150000
   \<and> parse_amount ''N12.50k'' = 25 / 2
   \<and> filter is_digit ''n/a'' = [] \<and> parse_amount ''n/a'' = 0 \<and> amount_column no_far ''n/a'' = Some 0"
proof -
  have lp: "lowers_plain ascii_lower"
    by (simp add: lowers_plain_def ascii_lower_def)
  note keys = sample_headers [OF lp]
  note syn = synonyms_normal [OF lp]
  have h0: "list_all plain_piece
            [[CHR 0xEF, CHR 0xBB, CHR 0xBF], ''R'', ''e'', ''n'', ''t'', ''_'', [CHR 0xC2, CHR 0xA0],
             ''P'', ''a'', ''i'', ''d'']"
    by (simp add: plain_piece_def white_space_def is_ascii_def)
  have n0: "normalize ascii_lower (concat
            [[CHR 0xEF, CHR 0xBB, CHR 0xBF], ''R'', ''e'', ''n'', ''t'', ''_'', [CHR 0xC2, CHR 0xA0],
             ''P'', ''a'', ''i'', ''d''])
          = concat (map normal_piece
            [[CHR 0xEF, CHR 0xBB, CHR 0xBF], ''R'', ''e'', ''n'', ''t'', ''_'', [CHR 0xC2, CHR 0xA0],
             ''P'', ''a'', ''i'', ''d''])"
    by (rule mp [OF import_resolves_headers [OF lp, where ws = "[[CHR 0xEF, CHR 0xBB, CHR 0xBF], ''R'', ''e'', ''n'', ''t'', ''_'', [CHR 0xC2, CHR 0xA0],
             ''P'', ''a'', ''i'', ''d'']", THEN conjunct1] h0])
  have n: "normalize ascii_lower
       [CHR 0xEF, CHR 0xBB, CHR 0xBF, CHR ''R'', CHR ''e'', CHR ''n'', CHR ''t'', CHR ''_'',
        CHR 0xC2, CHR 0xA0, CHR ''P'', CHR ''a'', CHR ''i'', CHR ''d''] = ''rentpaid''"
    using n0 by (simp add: normal_piece_def white_space_def to_lower_def)
  have h1: "\<forall>k \<in> set [''rentperannum'', ''rent'']. normalize ascii_lower k \<noteq> []"
    by (simp add: syn)
  have k: "normalize ascii_lower ''rentperannum'' \<noteq> [] \<and> normalize ascii_lower ''rent'' \<noteq> []"
    using h1 by simp
  have a: "g ascii_lower sample_row [''rentperannum'', ''rent'']
           = resolve_field ascii_lower sample_row [''rentperannum'', ''rent'']"
    by (rule mp [OF import_resolves_headers
          [OF lp, where keys = "[''rentperannum'', ''rent'']" and row = sample_row, THEN conjunct2, THEN conjunct1] h1])
  have h2: "g ascii_lower [(''Phone'', ''0800'')] [''nameoftenant'', ''tenant'', ''name''] = []"
    by (simp add: keys syn)
  have b: "import_loop ascii_lower no_far ''admin-001'' sample_ids 0 [[(''Phone'', ''0800'')], sample_row] seed_db []
       = import_loop ascii_lower no_far ''admin-001'' sample_ids 0 [sample_row] seed_db []"
    by (rule mp [OF import_resolves_headers
          [OF lp, where row = "[(''Phone'', ''0800'')]" and uid = "''admin-001''" and ids = sample_ids
             and far = no_far and k = 0 and rows = "[sample_row]" and d = seed_db and acc = "[]",
           THEN conjunct2, THEN conjunct2, THEN conjunct1] h2])
  have name: "g ascii_lower sample_row [''nameoftenant'', ''tenant'', ''name''] = ''Jane Doe''"
    by (simp add: sample_row_def keys syn)
  have rent: "g ascii_lower sample_row [''rentperannum'', ''rent'']
                = [CHR 0xE2, CHR 0x82, CHR 0xA6, CHR ''1'', CHR ''5'', CHR ''0'',
                   CHR '','', CHR ''0'', CHR ''0'', CHR ''0'']"
    by (simp add: sample_row_def keys syn)
  have paid: "g ascii_lower sample_row [''amountpaid'', ''paid''] = []"
    by (simp add: sample_row_def keys syn)
  have others: "g ascii_lower sample_row [''typeofaccommodation'', ''type'', ''accommodation''] = []"
    "g ascii_lower sample_row [''property'', ''address'', ''block''] = []"
    "g ascii_lower sample_row [''period''] = []"
    "g ascii_lower sample_row [''phone'', ''mobile''] = []"
    "g ascii_lower sample_row [''email''] = []"
    "g ascii_lower sample_row [''notes'', ''remarks''] = []"
    "g ascii_lower sample_row [''quitnotice'', ''quit''] = []"
    by (simp_all add: sample_row_def keys syn)
  have fresh: "sample_ids 0 = ''t-100''" "''t-100'' \<notin> t_id ` set (tenants seed_db)"
      "next_sn seed_db = 3"
    by (simp_all add: sample_ids_def string_of_nat.simps seed_db_def seed_tenant_def)
  have h3: "g ascii_lower sample_row [''nameoftenant'', ''tenant'', ''name''] \<noteq> []
        \<and> amount_column no_far (g ascii_lower sample_row [''rentperannum'', ''rent'']) = Some 150000
        \<and> amount_column no_far (g ascii_lower sample_row [''amountpaid'', ''paid'']) = Some 0
        \<and> sample_ids 0 \<notin> t_id ` set (tenants seed_db)"
    by (simp add: name rent paid sample_amounts fresh del: g.simps)
  note c0 = mp [OF import_resolves_headers
          [OF lp, where row = sample_row and uid = "''admin-001''" and ids = sample_ids
             and far = no_far and k = 0 and rows = "[]" and d = seed_db and acc = "[]"
             and rent = 150000 and paid = 0,
           THEN conjunct2, THEN conjunct2, THEN conjunct2, THEN conjunct1] h3]
  have c: "import_loop ascii_lower no_far ''admin-001'' sample_ids 0 [sample_row] seed_db []
       = (Inr [\<lparr> t_id = ''t-100'', sn = 3, tenant_name = ''Jane Doe'',
               accommodation_type = Some [], property_address = Some [], period = Some [],
               lease_start = None, lease_end = None,
               rent_per_annum = 150000, amount_paid = 0,
               phone = Some [], email = Some [], whatsapp = None, t_notes = Some [],
               quit_notice = False, quit_notice_date = None, created_by = Some ''admin-001'' \<rparr>],
          seed_db\<lparr>tenants := tenants seed_db @
            [\<lparr> t_id = ''t-100'', sn = 3, tenant_name = ''Jane Doe'',
               accommodation_type = Some [], property_address = Some [], period = Some [],
               lease_start = None, lease_end = None,
               rent_per_annum = 150000, amount_paid = 0,
               phone = Some [], email = Some [], whatsapp = None, t_notes = Some [],
               quit_notice = False, quit_notice_date = None, created_by = Some ''admin-001'' \<rparr>],
            next_sn := 4\<rparr>)"
    unfolding c0
    by (simp add: Let_def name others fresh ascii_lower_def del: g.simps)
  have h7: "literal_length (filter (\<lambda>c. is_digit c \<or> c = CHR ''.'') ''12.345'') \<le> 15"
    by (simp add: literal_length_def is_digit_def)
  have e0: "amount_column no_far ''12.345'' = decimal_15_2 (parse_amount ''12.345'')"
    by (rule mp [OF import_resolves_headers [OF lp, where s = "''12.345''" and far = no_far, THEN conjunct2, THEN conjunct2, THEN conjunct2, THEN conjunct2, THEN conjunct2, THEN conjunct2, THEN conjunct1] h7])
  have e: "amount_column no_far ''12.345'' = Some (247 / 20)"
    unfolding e0
    by (simp add: parse_amount_def parse_float_def is_digit_def digits_value_def digit_val_def
        decimal_15_2_def round_half_away_def Let_def)
  have h8: "(\<forall>c \<in> set ''N150,000''. c \<noteq> CHR ''.'') \<and> (\<exists>c \<in> set ''N150,000''. is_digit c)"
    by (simp add: is_digit_def)
  have v: "of_nat (digits_value 10 digit_val (filter is_digit ''N150,000'')) = (150000::rat)"
    by (simp add: is_digit_def digits_value_def digit_val_def)
  have f0: "parse_amount ''N150,000'' = rat_of_nat (digits_value 10 digit_val (filter is_digit ''N150,000''))"
    by (rule mp [OF import_resolves_headers [OF lp, where s = "''N150,000''", THEN conjunct2, THEN conjunct2, THEN conjunct2, THEN conjunct2, THEN conjunct2, THEN conjunct2, THEN conjunct2, THEN conjunct1] h8])
  have f: "parse_amount ''N150,000'' = 150000"
    unfolding f0 by (rule v)
  have h9: "(\<forall>c \<in> set ''12''. is_digit c) \<and> (\<forall>c \<in> set ''50''. is_digit c) \<and> (''12'' \<noteq> [] \<or> ''50'' \<noteq> [])
        \<and> ([] = [] \<or> hd [] = CHR ''.'')
        \<and> filter (\<lambda>c. is_digit c \<or> c = CHR ''.'') ''N12.50k'' = ''12'' @ CHR ''.'' # ''50'' @ []"
    by (simp add: is_digit_def)
  have p0: "parse_amount ''N12.50k'' = of_nat (digits_value 10 digit_val ''12'')
                         + of_nat (digits_value 10 digit_val ''50'') / 10 ^ length ''50''"
    by (rule mp [OF import_resolves_headers
          [OF lp, where s = "''N12.50k''" and ip = "''12''" and fp = "''50''" and rest = "[]", THEN conjunct2, THEN conjunct2, THEN conjunct2, THEN conjunct2, THEN conjunct2, THEN conjunct2, THEN conjunct2, THEN conjunct2, THEN conjunct1] h9])
  have p: "parse_amount ''N12.50k'' = 25 / 2"
    unfolding p0 by (simp add: digits_value_def digit_val_def)
  have h10: "\<forall>c \<in> set ''n/a''. \<not> is_digit c"
    by (simp add: is_digit_def)
  have z: "parse_amount ''n/a'' = 0 \<and> amount_column no_far ''n/a'' = Some 0"
    by (rule mp [OF import_resolves_headers [OF lp, where s = "''n/a''" and far = no_far, THEN conjunct2, THEN conjunct2, THEN conjunct2, THEN conjunct2, THEN conjunct2, THEN conjunct2, THEN conjunct2, THEN conjunct2, THEN conjunct2, THEN conjunct1] h10])
  have q: "CHR ''.'' \<notin> set ''N150,000''" "filter is_digit ''N150,000'' = ''150000''"
    "filter is_digit ''n/a'' = []"
    by (simp_all add: is_digit_def)
  show ?thesis
    by (intro conjI n k [THEN conjunct1] k [THEN conjunct2] a h2 b c e q f p
        z [THEN conjunct1] z [THEN conjunct2])
qed

subsection \<open>Receipt numbers\<close>


































end
